theory Spec2Isabelle
  imports Complex_Main "HOL-Library.Word" "HOL-Library.Signed_Division"
begin

section \<open>Machine integers of the fixed-point controller\<close>

text \<open>
  \<^verbatim>\<open>Stabilize::update\<close> (stabilize.cpp) takes \<^verbatim>\<open>int16_t\<close> arrays and computes in
  \<^verbatim>\<open>int32_t\<close>. Values are words; \<open>+\<close>, \<open>-\<close> and \<open>*\<close> wrap modulo \<open>2 ^ 32\<close>, which
  is what the two's-complement target does where C++ leaves signed overflow undefined.
  Comparisons are the signed ones, \<^verbatim>\<open>/\<close> truncates towards zero and \<^verbatim>\<open>>>\<close> on a signed
  value is the arithmetic shift.
\<close>

type_synonym int16 = "16 word"
type_synonym int32 = "32 word"

text \<open>Integer promotion of an \<^verbatim>\<open>int16_t\<close> operand to \<^verbatim>\<open>int\<close>.\<close>

definition promote :: "int16 \<Rightarrow> int32" where
  "promote x = scast x"

text \<open>\<^verbatim>\<open>a / b\<close> on \<^verbatim>\<open>int32_t\<close>, for \<open>b \<noteq> 0\<close> (the callers check the divisor).\<close>

definition c_div :: "int32 \<Rightarrow> int32 \<Rightarrow> int32" where
  "c_div a b = word_of_int (sint a sdiv sint b)"

text \<open>\<^verbatim>\<open>abs(x)\<close> on \<^verbatim>\<open>int\<close>.\<close>

definition c_abs :: "int32 \<Rightarrow> int32" where
  "c_abs x = (if x <s 0 then - x else x)"

text \<open>\<^verbatim>\<open>max(a, b)\<close> on \<^verbatim>\<open>int\<close>.\<close>

definition c_max :: "int32 \<Rightarrow> int32 \<Rightarrow> int32" where
  "c_max a b = (if a <s b then b else a)"

text \<open>
  \<^verbatim>\<open>#define constrain(val, lo, hi) (val) < (lo) ? lo : ((val) > hi ? hi : val)\<close>
  where the expansion is the whole right-hand side of an assignment.
\<close>

definition constrain :: "int32 \<Rightarrow> int32 \<Rightarrow> int32 \<Rightarrow> int32" where
  "constrain val lo hi = (if val <s lo then lo else if hi <s val then hi else val)"

section \<open>The fixed-point controller: class Stabilize\<close>

text \<open>The axis numbers: the enumeration of stabilizer.hpp, "shared with Hackflight class".\<close>

definition AXIS_ROLL :: nat where "AXIS_ROLL = 0"
definition AXIS_PITCH :: nat where "AXIS_PITCH = 1"
definition AXIS_YAW :: nat where "AXIS_YAW = 2"

text \<open>
  Modelled from the spec: the enumeration \<^verbatim>\<open>DEMAND_*\<close> is declared in a header that is not
  among the sources. The spec lists a demand as (roll, pitch, yaw) with throttle apart, and
  \<^verbatim>\<open>Stabilize::update\<close> reads \<^verbatim>\<open>rcCommand[axis]\<close> as the demand of \<^verbatim>\<open>axis\<close>, so the
  demand indices follow the axis numbers and throttle is the fourth entry.
\<close>

definition DEMAND_ROLL :: nat where "DEMAND_ROLL = 0"
definition DEMAND_PITCH :: nat where "DEMAND_PITCH = 1"
definition DEMAND_YAW :: nat where "DEMAND_YAW = 2"
definition DEMAND_THROTTLE :: nat where "DEMAND_THROTTLE = 3"

text \<open>
  The \<^verbatim>\<open>CONFIG_*\<close> macros are defined in a header that is not among the sources; they are
  parameters here, each the integer value the macro stands for.
\<close>

record config =
  CONFIG_RATE_PITCHROLL_P :: int32
  CONFIG_RATE_PITCHROLL_I :: int32
  CONFIG_RATE_PITCHROLL_D :: int32
  CONFIG_YAW_P :: int32
  CONFIG_YAW_I :: int32
  CONFIG_LEVEL_P :: int32
  CONFIG_LEVEL_I :: int32
  CONFIG_MAX_ANGLE_INCLINATION :: int32
  CONFIG_SMALL_ANGLE :: int32

text \<open>
  The data members of \<^verbatim>\<open>Stabilize\<close>. The class declaration is not among the sources, so each
  member has the type of the value the code stores in it: \<^verbatim>\<open>lastGyro\<close> receives an
  \<^verbatim>\<open>int16_t\<close>, the others \<^verbatim>\<open>int32_t\<close> expressions or the promoted \<^verbatim>\<open>CONFIG_*\<close> values.
  An array is a function of its index.
\<close>

record stabilize =
  axisPID :: "nat \<Rightarrow> int32"
  rate_p :: "nat \<Rightarrow> int32"
  rate_i :: "nat \<Rightarrow> int32"
  rate_d :: "nat \<Rightarrow> int32"
  lastGyro :: "nat \<Rightarrow> int16"
  delta1 :: "nat \<Rightarrow> int32"
  delta2 :: "nat \<Rightarrow> int32"
  errorGyroI :: "nat \<Rightarrow> int32"
  errorAngleI :: "nat \<Rightarrow> int32"

text \<open>The three array arguments of \<^verbatim>\<open>Stabilize::update\<close>.\<close>

record stab_input =
  rcCommand :: "nat \<Rightarrow> int16"
  gyroADC :: "nat \<Rightarrow> int16"
  angle :: "nat \<Rightarrow> int16"

text \<open>\<^verbatim>\<open>Stabilize::resetIntegral\<close>\<close>

definition Stabilize_resetIntegral :: "stabilize \<Rightarrow> stabilize" where
  "Stabilize_resetIntegral s =
     s\<lparr>errorGyroI := (errorGyroI s)(AXIS_ROLL := 0, AXIS_PITCH := 0, AXIS_YAW := 0),
       errorAngleI := (errorAngleI s)(AXIS_ROLL := 0, AXIS_PITCH := 0)\<rparr>"

text \<open>\<^verbatim>\<open>Stabilize::init\<close>: the loop over the three axes, the gains, then \<^verbatim>\<open>resetIntegral\<close>.\<close>

fun init_loop :: "nat list \<Rightarrow> stabilize \<Rightarrow> stabilize" where
  "init_loop [] s = s"
| "init_loop (axis # rest) s =
     init_loop rest
       (s\<lparr>lastGyro := (lastGyro s)(axis := 0),
          delta1 := (delta1 s)(axis := 0),
          delta2 := (delta2 s)(axis := 0)\<rparr>)"

definition Stabilize_init :: "config \<Rightarrow> stabilize \<Rightarrow> stabilize" where
  "Stabilize_init cfg s0 =
     (let s1 = init_loop [0, 1, 2] s0;
          s2 = s1\<lparr>rate_p := (rate_p s1)(0 := CONFIG_RATE_PITCHROLL_P cfg,
                                           1 := CONFIG_RATE_PITCHROLL_P cfg,
                                           2 := CONFIG_YAW_P cfg)\<rparr>;
          s3 = s2\<lparr>rate_i := (rate_i s2)(0 := CONFIG_RATE_PITCHROLL_I cfg,
                                           1 := CONFIG_RATE_PITCHROLL_I cfg,
                                           2 := CONFIG_YAW_I cfg)\<rparr>;
          s4 = s3\<lparr>rate_d := (rate_d s3)(0 := CONFIG_RATE_PITCHROLL_D cfg,
                                           1 := CONFIG_RATE_PITCHROLL_D cfg,
                                           2 := 0)\<rparr>
      in Stabilize_resetIntegral s4)"

subsection \<open>One iteration of the loop of \<^verbatim>\<open>Stabilize::update\<close>\<close>

text \<open>
  Each definition is one local of the loop body, in the order of the source; \<open>axis_PTerm\<close>,
  \<open>axis_delta\<close>, \<open>axis_deltaSum\<close> and \<open>axis_DTerm\<close> are the locals \<^verbatim>\<open>PTerm\<close> (at the end of
  the body), \<^verbatim>\<open>delta\<close>, \<^verbatim>\<open>deltaSum\<close> and \<^verbatim>\<open>DTerm\<close>.
\<close>

definition gyro_error :: "stabilize \<Rightarrow> stab_input \<Rightarrow> nat \<Rightarrow> int32" where
  "gyro_error s inp axis =
     c_div (promote (rcCommand inp axis) * 10 * 8) (rate_p s axis) - promote (gyroADC inp axis)"

definition PTermGYRO :: "stab_input \<Rightarrow> nat \<Rightarrow> int32" where
  "PTermGYRO inp axis = promote (rcCommand inp axis)"

text \<open>The two statements that assign \<^verbatim>\<open>errorGyroI[axis]\<close>: the windup clamp, then the reset.\<close>

definition next_errorGyroI :: "stabilize \<Rightarrow> stab_input \<Rightarrow> nat \<Rightarrow> int32" where
  "next_errorGyroI s inp axis =
     (let e = constrain (errorGyroI s axis + gyro_error s inp axis) (- 16000) 16000
      in if 640 <s c_abs (promote (gyroADC inp axis)) \<or>
            (axis = AXIS_YAW \<and> 100 <s c_abs (promote (rcCommand inp axis)))
         then 0 else e)"

definition ITermGYRO :: "stabilize \<Rightarrow> stab_input \<Rightarrow> nat \<Rightarrow> int32" where
  "ITermGYRO s inp axis =
     signed_drop_bit 6 (c_div (next_errorGyroI s inp axis) 125 * rate_i s axis)"

text \<open>
  \<^verbatim>\<open>errorAngle\<close>: here the macro is followed by \<^verbatim>\<open>- angle[axis]\<close>, and its expansion is not
  parenthesised, so the subtraction belongs to the last branch of the conditional only.
\<close>

definition errorAngle :: "config \<Rightarrow> stab_input \<Rightarrow> nat \<Rightarrow> int32" where
  "errorAngle cfg inp axis =
     (let val = 2 * promote (rcCommand inp axis);
          hi = CONFIG_MAX_ANGLE_INCLINATION cfg
      in if val <s - hi then - hi
         else (if hi <s val then hi else val) - promote (angle inp axis))"

definition PTermACC :: "config \<Rightarrow> stab_input \<Rightarrow> nat \<Rightarrow> int32" where
  "PTermACC cfg inp axis = c_div (errorAngle cfg inp axis * CONFIG_LEVEL_P cfg) 100"

definition next_errorAngleI :: "config \<Rightarrow> stabilize \<Rightarrow> stab_input \<Rightarrow> nat \<Rightarrow> int32" where
  "next_errorAngleI cfg s inp axis =
     constrain (errorAngleI s axis + errorAngle cfg inp axis) (- 10000) 10000"

definition ITermACC :: "config \<Rightarrow> stabilize \<Rightarrow> stab_input \<Rightarrow> nat \<Rightarrow> int32" where
  "ITermACC cfg s inp axis =
     signed_drop_bit 12 (next_errorAngleI cfg s inp axis * CONFIG_LEVEL_I cfg)"

definition blend_prop :: "stab_input \<Rightarrow> int32" where
  "blend_prop inp = c_max (c_abs (promote (rcCommand inp DEMAND_PITCH)))
                    (c_abs (promote (rcCommand inp DEMAND_ROLL)))"

text \<open>The local \<^verbatim>\<open>prop\<close> is named \<open>blend_prop\<close> (\<open>prop\<close> is a type of the logic).
  \<^verbatim>\<open>PTerm\<close> and \<^verbatim>\<open>ITerm\<close> as they stand after the \<^verbatim>\<open>if (axis < 2)\<close> block.\<close>

definition blend_PTerm :: "config \<Rightarrow> stab_input \<Rightarrow> nat \<Rightarrow> int32" where
  "blend_PTerm cfg inp axis =
     (if axis < 2
      then c_div (PTermACC cfg inp axis * (500 - blend_prop inp) + PTermGYRO inp axis * blend_prop inp) 500
      else PTermGYRO inp axis)"

definition blend_ITerm :: "config \<Rightarrow> stabilize \<Rightarrow> stab_input \<Rightarrow> nat \<Rightarrow> int32" where
  "blend_ITerm cfg s inp axis =
     (if axis < 2
      then c_div (ITermACC cfg s inp axis * (500 - blend_prop inp) + ITermGYRO s inp axis * blend_prop inp) 500
      else ITermGYRO s inp axis)"

definition axis_PTerm :: "config \<Rightarrow> stabilize \<Rightarrow> stab_input \<Rightarrow> nat \<Rightarrow> int32" where
  "axis_PTerm cfg s inp axis =
     blend_PTerm cfg inp axis - c_div (c_div (promote (gyroADC inp axis) * rate_p s axis) 10) 8"

definition axis_delta :: "stabilize \<Rightarrow> stab_input \<Rightarrow> nat \<Rightarrow> int32" where
  "axis_delta s inp axis = promote (gyroADC inp axis) - promote (lastGyro s axis)"

definition axis_deltaSum :: "stabilize \<Rightarrow> stab_input \<Rightarrow> nat \<Rightarrow> int32" where
  "axis_deltaSum s inp axis = delta1 s axis + delta2 s axis + axis_delta s inp axis"

definition axis_DTerm :: "stabilize \<Rightarrow> stab_input \<Rightarrow> nat \<Rightarrow> int32" where
  "axis_DTerm s inp axis = c_div (axis_deltaSum s inp axis * rate_d s axis) 32"

text \<open>
  The loop body. The first statement divides by \<^verbatim>\<open>rate_p[axis]\<close>; a zero divisor has no
  defined result in C++, and the iteration yields \<open>None\<close>.
\<close>

definition axis_step :: "config \<Rightarrow> stab_input \<Rightarrow> nat \<Rightarrow> stabilize \<Rightarrow> stabilize option" where
  "axis_step cfg inp axis s =
     (if rate_p s axis = 0 then None
      else Some (s\<lparr>errorGyroI := (errorGyroI s)(axis := next_errorGyroI s inp axis),
                   errorAngleI := (if axis < 2
                                   then (errorAngleI s)(axis := next_errorAngleI cfg s inp axis)
                                   else errorAngleI s),
                   lastGyro := (lastGyro s)(axis := gyroADC inp axis),
                   delta2 := (delta2 s)(axis := delta1 s axis),
                   delta1 := (delta1 s)(axis := axis_delta s inp axis),
                   axisPID := (axisPID s)(axis :=
                      axis_PTerm cfg s inp axis + blend_ITerm cfg s inp axis - axis_DTerm s inp axis)\<rparr>))"

fun axis_loop :: "config \<Rightarrow> stab_input \<Rightarrow> nat list \<Rightarrow> stabilize \<Rightarrow> stabilize option" where
  "axis_loop cfg inp [] s = Some s"
| "axis_loop cfg inp (axis # rest) s =
     (case axis_step cfg inp axis s of
        None \<Rightarrow> None
      | Some s' \<Rightarrow> axis_loop cfg inp rest s')"

text \<open>The statement after the loop: the bound against a yaw jump.\<close>

definition yaw_jump :: "stab_input \<Rightarrow> stabilize \<Rightarrow> stabilize" where
  "yaw_jump inp s =
     s\<lparr>axisPID := (axisPID s)(AXIS_YAW :=
         constrain (axisPID s AXIS_YAW)
           (- 100 - c_abs (promote (rcCommand inp DEMAND_YAW)))
           (100 + c_abs (promote (rcCommand inp DEMAND_YAW))))\<rparr>"

text \<open>\<^verbatim>\<open>Stabilize::update\<close>\<close>

definition Stabilize_update :: "config \<Rightarrow> stabilize \<Rightarrow> stab_input \<Rightarrow> stabilize option" where
  "Stabilize_update cfg s inp =
     (case axis_loop cfg inp [0, 1, 2] s of
        None \<Rightarrow> None
      | Some s' \<Rightarrow> Some (yaw_jump inp s'))"

text \<open>A sequence of calls on one \<^verbatim>\<open>Stabilize\<close> object, in any order.\<close>

datatype stabilize_call = Update stab_input | ResetIntegral

fun Stabilize_calls :: "config \<Rightarrow> stabilize_call list \<Rightarrow> stabilize \<Rightarrow> stabilize option" where
  "Stabilize_calls cfg [] s = Some s"
| "Stabilize_calls cfg (Update inp # calls) s =
     (case Stabilize_update cfg s inp of
        None \<Rightarrow> None
      | Some s' \<Rightarrow> Stabilize_calls cfg calls s')"
| "Stabilize_calls cfg (ResetIntegral # calls) s =
     Stabilize_calls cfg calls (Stabilize_resetIntegral s)"

section \<open>The floating-point controller: class hf::Stabilizer\<close>

text \<open>
  stabilizer.hpp computes in \<^verbatim>\<open>float\<close>. The values are modelled as real numbers: rounding,
  infinities and NaN are outside the model, so every statement below about this class is a
  statement about the control law on exact arithmetic. Names that the fixed-point class
  uses too carry the prefix \<open>hf_\<close> of the namespace.
\<close>

text \<open>
  Modelled from the spec: filter.hpp, which defines the class \<^verbatim>\<open>Filter\<close>, is not among the
  sources. The spec has the integral "clamp to \<open>[-windupBound, +windupBound]\<close>" for
  \<^verbatim>\<open>constrainAbs\<close>, a "weighted complementary blend ... weighted \<open>(1 - prop)\<close> toward
  angle-hold and \<open>prop\<close> toward pure rate control" for \<^verbatim>\<open>complementary\<close>, whose first
  argument is the rate demand and second the angle term, and \<open>max\<close> for \<^verbatim>\<open>max\<close>.
\<close>

definition Filter_constrainAbs :: "real \<Rightarrow> real \<Rightarrow> real" where
  "Filter_constrainAbs val bound =
     (if val < - bound then - bound else if bound < val then bound else val)"

definition Filter_complementary :: "real \<Rightarrow> real \<Rightarrow> real \<Rightarrow> real" where
  "Filter_complementary a b c = a * c + b * (1 - c)"

definition Filter_max :: "real \<Rightarrow> real \<Rightarrow> real" where
  "Filter_max a b = (if a < b then b else a)"

text \<open>The constant members of the class.\<close>

definition gyroWindupMax :: real where "gyroWindupMax = 16"
definition bigGyroDegreesPerSecond :: real where "bigGyroDegreesPerSecond = 40"
definition bigYawDemand :: real where "bigYawDemand = 1 / 10"
definition maxArmingAngleDegrees :: real where "maxArmingAngleDegrees = 25"

text \<open>The other members; the gains are the constructor's arguments.\<close>

record stabilizer =
  levelP :: real
  gyroCyclicP :: real
  gyroCyclicI :: real
  gyroCyclicD :: real
  gyroYawP :: real
  gyroYawI :: real
  hf_lastGyro :: "nat \<Rightarrow> real"
  gyroDelta1 :: "nat \<Rightarrow> real"
  gyroDelta2 :: "nat \<Rightarrow> real"
  hf_errorGyroI :: "nat \<Rightarrow> real"
  bigGyroRate :: real
  maxArmingAngle :: real

text \<open>
  \<^verbatim>\<open>demands_t\<close> is declared in datatypes.hpp, which is not among the sources; these are the
  three members that \<^verbatim>\<open>updateDemands\<close> reads and writes.
\<close>

record demands_t =
  roll :: real
  pitch :: real
  yaw :: real

definition degreesToRadians :: "real \<Rightarrow> real" where
  "degreesToRadians deg = pi * deg / 180"

text \<open>
  \<^verbatim>\<open>computeITermGyro\<close>: the value returned and the object after the call. The parameter
  \<^verbatim>\<open>rcCommand\<close> is \<open>command\<close> here and in the functions below.
\<close>

definition computeITermGyro ::
  "real \<Rightarrow> real \<Rightarrow> real \<Rightarrow> (nat \<Rightarrow> real) \<Rightarrow> nat \<Rightarrow> stabilizer \<Rightarrow> real \<times> stabilizer" where
  "computeITermGyro rateP rateI command gyro axis s =
     (let error = command * rateP - gyro axis;
          s1 = s\<lparr>hf_errorGyroI := (hf_errorGyroI s)(axis :=
                   Filter_constrainAbs (hf_errorGyroI s axis + error) gyroWindupMax)\<rparr>;
          s2 = (if bigGyroRate s1 < \<bar>gyro axis\<bar> \<or> (axis = AXIS_YAW \<and> bigYawDemand < \<bar>command\<bar>)
                then s1\<lparr>hf_errorGyroI := (hf_errorGyroI s1)(axis := 0)\<rparr>
                else s1)
      in (hf_errorGyroI s2 axis * rateI, s2))"

definition computePid :: "real \<Rightarrow> real \<Rightarrow> real \<Rightarrow> real \<Rightarrow> (nat \<Rightarrow> real) \<Rightarrow> nat \<Rightarrow> real" where
  "computePid rateP pterm iterm dterm gyro axis = (pterm - gyro axis * rateP) + iterm - dterm"

text \<open>The locals \<^verbatim>\<open>PTermEuler\<close> and \<^verbatim>\<open>PTerm\<close> of \<^verbatim>\<open>computeCyclicPid\<close>.\<close>

definition PTermEuler :: "stabilizer \<Rightarrow> real \<Rightarrow> (nat \<Rightarrow> real) \<Rightarrow> nat \<Rightarrow> real" where
  "PTermEuler s command eulerAngles imuAxis = (command - eulerAngles imuAxis) * levelP s"

definition cyclic_PTerm :: "stabilizer \<Rightarrow> real \<Rightarrow> real \<Rightarrow> (nat \<Rightarrow> real) \<Rightarrow> nat \<Rightarrow> real" where
  "cyclic_PTerm s command proportion eulerAngles imuAxis =
     Filter_complementary command (PTermEuler s command eulerAngles imuAxis) proportion"

definition computeCyclicPid ::
  "real \<Rightarrow> real \<Rightarrow> (nat \<Rightarrow> real) \<Rightarrow> (nat \<Rightarrow> real) \<Rightarrow> nat \<Rightarrow> stabilizer \<Rightarrow> real \<times> stabilizer" where
  "computeCyclicPid command proportion eulerAngles gyro imuAxis s =
     (let (ITermGyro, s1) =
            computeITermGyro (gyroCyclicP s) (gyroCyclicI s) command gyro imuAxis s;
          pterm = cyclic_PTerm s1 command proportion eulerAngles imuAxis;
          iterm = ITermGyro * proportion;
          gyroDelta = gyro imuAxis - hf_lastGyro s1 imuAxis;
          s2 = s1\<lparr>hf_lastGyro := (hf_lastGyro s1)(imuAxis := gyro imuAxis)\<rparr>;
          gyroDeltaSum = gyroDelta1 s2 imuAxis + gyroDelta2 s2 imuAxis + gyroDelta;
          s3 = s2\<lparr>gyroDelta2 := (gyroDelta2 s2)(imuAxis := gyroDelta1 s2 imuAxis)\<rparr>;
          s4 = s3\<lparr>gyroDelta1 := (gyroDelta1 s3)(imuAxis := gyroDelta)\<rparr>;
          dterm = gyroDeltaSum * gyroCyclicD s4
      in (computePid (gyroCyclicP s4) pterm iterm dterm gyro imuAxis, s4))"

text \<open>\<^verbatim>\<open>Stabilizer::resetIntegral\<close>\<close>

definition Stabilizer_resetIntegral :: "stabilizer \<Rightarrow> stabilizer" where
  "Stabilizer_resetIntegral s =
     s\<lparr>hf_errorGyroI := (hf_errorGyroI s)(AXIS_ROLL := 0, AXIS_PITCH := 0, AXIS_YAW := 0)\<rparr>"

text \<open>\<^verbatim>\<open>Stabilizer::init\<close>: the loop runs over the two cyclic axes.\<close>

fun hf_init_loop :: "nat list \<Rightarrow> stabilizer \<Rightarrow> stabilizer" where
  "hf_init_loop [] s = s"
| "hf_init_loop (axis # rest) s =
     hf_init_loop rest
       (s\<lparr>hf_lastGyro := (hf_lastGyro s)(axis := 0),
          gyroDelta1 := (gyroDelta1 s)(axis := 0),
          gyroDelta2 := (gyroDelta2 s)(axis := 0)\<rparr>)"

definition Stabilizer_init :: "stabilizer \<Rightarrow> stabilizer" where
  "Stabilizer_init s0 =
     (let s1 = hf_init_loop [0, 1] s0;
          s2 = s1\<lparr>bigGyroRate := degreesToRadians bigGyroDegreesPerSecond\<rparr>;
          s3 = s2\<lparr>maxArmingAngle := degreesToRadians maxArmingAngleDegrees\<rparr>
      in Stabilizer_resetIntegral s3)"

text \<open>
  The local \<^verbatim>\<open>prop\<close> of \<^verbatim>\<open>updateDemands\<close>, named \<open>cyclic_prop\<close> here (\<open>prop\<close> is a type of
  the logic).
\<close>

definition cyclic_prop :: "demands_t \<Rightarrow> real" where
  "cyclic_prop demands = Filter_max \<bar>roll demands\<bar> \<bar>pitch demands\<bar> / (1 / 2)"

text \<open>
  \<^verbatim>\<open>Stabilizer::updateDemands\<close>. \<^verbatim>\<open>demands\<close> is passed by reference and overwritten member
  by member: the last statement reads \<^verbatim>\<open>demands.yaw\<close> after the statement before it has
  stored the yaw output there.
\<close>

definition Stabilizer_updateDemands ::
  "(nat \<Rightarrow> real) \<Rightarrow> (nat \<Rightarrow> real) \<Rightarrow> demands_t \<Rightarrow> stabilizer \<Rightarrow> demands_t \<times> stabilizer" where
  "Stabilizer_updateDemands eulerAngles gyroRates demands s =
     (let proportion = cyclic_prop demands;
          (r, s1) = computeCyclicPid (roll demands) proportion eulerAngles gyroRates AXIS_ROLL s;
          d1 = demands\<lparr>roll := r\<rparr>;
          (p, s2) = computeCyclicPid (pitch d1) proportion eulerAngles gyroRates AXIS_PITCH s1;
          d2 = d1\<lparr>pitch := p\<rparr>;
          (ITermGyroYaw, s3) =
            computeITermGyro (gyroYawP s2) (gyroYawI s2) (yaw d2) gyroRates AXIS_YAW s2;
          d3 = d2\<lparr>yaw := computePid (gyroYawP s3) (yaw d2) ITermGyroYaw 0 gyroRates AXIS_YAW\<rparr>;
          d4 = d3\<lparr>yaw := Filter_constrainAbs (yaw d3) (1 / 10 + \<bar>yaw d3\<bar>)\<rparr>
      in (d4, s3))"

text \<open>A sequence of calls on one \<^verbatim>\<open>Stabilizer\<close> object, in any order.\<close>

datatype stabilizer_call =
  UpdateDemands "nat \<Rightarrow> real" "nat \<Rightarrow> real" demands_t | HfResetIntegral

fun Stabilizer_calls :: "stabilizer_call list \<Rightarrow> stabilizer \<Rightarrow> stabilizer" where
  "Stabilizer_calls [] s = s"
| "Stabilizer_calls (UpdateDemands eulerAngles gyroRates demands # calls) s =
     Stabilizer_calls calls (snd (Stabilizer_updateDemands eulerAngles gyroRates demands s))"
| "Stabilizer_calls (HfResetIntegral # calls) s =
     Stabilizer_calls calls (Stabilizer_resetIntegral s)"

section \<open>The firmware loop: Hackflight::update\<close>

text \<open>
  Modelled from the spec: the constants \<^verbatim>\<open>THR_LO\<close>, \<^verbatim>\<open>YAW_HI\<close>, \<^verbatim>\<open>PIT_CE\<close>, ... whose sums
  \<^verbatim>\<open>rc.sticks\<close> is compared with are declared in a header that is not among the sources.
  The spec describes a stick gesture as "an enumerated combination of {throttle, yaw,
  pitch, roll} each classified as {low, center, high}"; \<open>Sticks t y p r\<close> is the sum of
  the four constants of these positions.
\<close>

datatype stick_position = LO | CE | HI

datatype stick_gesture = Sticks stick_position stick_position stick_position stick_position

text \<open>
  The members of \<^verbatim>\<open>Hackflight\<close> and the function-local statics of \<^verbatim>\<open>update\<close> that the
  control flow reads: the counters are 16-bit (\<^verbatim>\<open>static uint16_t calibratingA\<close>, the cast
  \<^verbatim>\<open>(uint16_t)\<close> in \<^verbatim>\<open>initialize\<close>), \<^verbatim>\<open>taskOrder\<close> is a \<^verbatim>\<open>static int\<close>, \<open>led_on\<close> is the
  \<^verbatim>\<open>static bool on\<close>. Timers, receiver, IMU, mixer, serial link and LEDs are collaborators
  outside the sources; what \<^verbatim>\<open>update\<close> reads from them during one call is its \<open>tick\<close>, and
  they receive \<^verbatim>\<open>armed\<close> and the counters as arguments without writing to them.
\<close>

record hackflight =
  armed :: bool
  calibratingG :: "16 word"
  calibratingGyroCycles :: "16 word"
  calibratingAccCycles :: "16 word"
  haveSmallAngle :: bool
  accCalibrated :: bool
  calibratingA :: "16 word"
  taskOrder :: int32
  led_on :: bool
  stab :: stabilize

record tick =
  rcSerialReady :: bool           \<comment> \<open>\<^verbatim>\<open>Board::rcSerialReady()\<close>\<close>
  rcTask_due :: bool              \<comment> \<open>\<^verbatim>\<open>rcTask.checkAndUpdate(currentTime)\<close>\<close>
  throttleIsDown :: bool          \<comment> \<open>\<^verbatim>\<open>rc.throttleIsDown()\<close>, after \<^verbatim>\<open>rc.update\<close>\<close>
  changed :: bool                 \<comment> \<open>\<^verbatim>\<open>rc.changed()\<close>\<close>
  sticks :: stick_gesture         \<comment> \<open>\<^verbatim>\<open>rc.sticks\<close>\<close>
  auxState :: "8 word"            \<comment> \<open>\<^verbatim>\<open>rc.auxState()\<close>; zero is the neutral position\<close>
  extrasTaskCount :: int32        \<comment> \<open>\<^verbatim>\<open>Board::extrasGetTaskCount()\<close>\<close>
  imuTask_due :: bool             \<comment> \<open>\<^verbatim>\<open>imuTask.checkAndUpdate(currentTime)\<close>\<close>
  accelCalibrationTask_due :: bool \<comment> \<open>\<^verbatim>\<open>accelCalibrationTask.check(currentTime)\<close>\<close>
  rc_command :: "nat \<Rightarrow> int16"     \<comment> \<open>\<^verbatim>\<open>rc.command\<close>, after \<^verbatim>\<open>rc.computeExpo()\<close>\<close>
  imu_gyroADC :: "nat \<Rightarrow> int16"    \<comment> \<open>\<^verbatim>\<open>gyroADC\<close>, after \<^verbatim>\<open>Board::imuRead\<close>\<close>
  imu_angle :: "nat \<Rightarrow> int16"      \<comment> \<open>\<^verbatim>\<open>imu.angle\<close>, after \<^verbatim>\<open>imu.update\<close>\<close>

text \<open>The body of \<^verbatim>\<open>if (this->rc.changed())\<close>.\<close>

definition stick_actions :: "tick \<Rightarrow> hackflight \<Rightarrow> hackflight" where
  "stick_actions t h =
     (if armed h then
        (if sticks t = Sticks LO LO CE CE
         then (if armed h then h\<lparr>armed := False\<rparr> else h)
         else h)
      else
        (let h1 = (if sticks t = Sticks LO LO LO CE
                   then h\<lparr>calibratingG := calibratingGyroCycles h\<rparr> else h);
             h2 = (if sticks t = Sticks LO HI CE CE
                   then (if calibratingG h1 = 0 \<and> accCalibrated h1
                         then (if auxState t = 0
                               then (if \<not> armed h1 then h1\<lparr>armed := True\<rparr> else h1)
                               else h1)
                         else h1)
                   else h1);
             h3 = (if sticks t = Sticks HI LO LO CE
                   then h2\<lparr>calibratingA := calibratingAccCycles h2\<rparr> else h2)
         in h3))"

text \<open>The receiver branch of \<^verbatim>\<open>update\<close>, and the branch taken when the receiver is not due.\<close>

definition rc_block :: "tick \<Rightarrow> hackflight \<Rightarrow> hackflight" where
  "rc_block t h =
     (let h1 = (if throttleIsDown t then h\<lparr>stab := Stabilize_resetIntegral (stab h)\<rparr> else h)
      in if changed t then stick_actions t h1 else h1)"

definition extras_block :: "tick \<Rightarrow> hackflight \<Rightarrow> hackflight" where
  "extras_block t h =
     (let h1 = h\<lparr>taskOrder := taskOrder h + 1\<rparr>
      in if extrasTaskCount t \<le>s taskOrder h1 then h1\<lparr>taskOrder := 0\<rparr> else h1)"

text \<open>
  The sensor branch, in two parts. First the statements before \<^verbatim>\<open>stab.update\<close>: the two
  countdowns, the small-angle flag and the periodic check of the accelerometer calibration.
\<close>

definition imu_bookkeeping :: "config \<Rightarrow> tick \<Rightarrow> hackflight \<Rightarrow> hackflight" where
  "imu_bookkeeping cfg t h =
     (let h1 = (if 0 < calibratingA h then h\<lparr>calibratingA := calibratingA h - 1\<rparr> else h);
          h2 = (if 0 < calibratingG h1 then h1\<lparr>calibratingG := calibratingG h1 - 1\<rparr> else h1);
          h3 = h2\<lparr>haveSmallAngle :=
                     c_abs (promote (imu_angle t 0)) <s CONFIG_SMALL_ANGLE cfg \<and>
                     c_abs (promote (imu_angle t 1)) <s CONFIG_SMALL_ANGLE cfg\<rparr>
      in if accelCalibrationTask_due t
         then (if \<not> haveSmallAngle h3
               then h3\<lparr>accCalibrated := False, led_on := \<not> led_on h3\<rparr>
               else h3\<lparr>accCalibrated := True\<rparr>)
         else h3)"

text \<open>Then \<^verbatim>\<open>stab.update\<close>, which has no result when a rate gain is zero.\<close>

definition imu_block :: "config \<Rightarrow> tick \<Rightarrow> hackflight \<Rightarrow> hackflight option" where
  "imu_block cfg t h =
     (let h4 = imu_bookkeeping cfg t h
      in case Stabilize_update cfg (stab h4)
                \<lparr>rcCommand = rc_command t, gyroADC = imu_gyroADC t, angle = imu_angle t\<rparr> of
           None \<Rightarrow> None
         | Some st \<Rightarrow> Some (h4\<lparr>stab := st\<rparr>))"

text \<open>\<^verbatim>\<open>Hackflight::update\<close>: one pass of \<^verbatim>\<open>loop()\<close>.\<close>

definition Hackflight_update :: "config \<Rightarrow> tick \<Rightarrow> hackflight \<Rightarrow> hackflight option" where
  "Hackflight_update cfg t h =
     (let h1 = (if rcTask_due t \<or> rcSerialReady t then rc_block t h else extras_block t h)
      in if imuTask_due t then imu_block cfg t h1 else Some h1)"

section \<open>The simulator receiver: class hf::Controller\<close>

text \<open>
  The members that \<^verbatim>\<open>arming\<close> and \<^verbatim>\<open>disarming\<close> read or write: \<^verbatim>\<open>_ready\<close>, and \<^verbatim>\<open>rawvals\<close> of
  the base class \<^verbatim>\<open>Receiver\<close>. \<^verbatim>\<open>CHANNEL_THROTTLE\<close> is declared in receiver.hpp, which is not
  among the sources; \<^verbatim>\<open>readRawvals\<close> stores the throttle in \<^verbatim>\<open>rawvals[0]\<close>.
\<close>

record controller =
  ready :: bool
  rawvals :: "nat \<Rightarrow> real"

definition CHANNEL_THROTTLE :: nat where "CHANNEL_THROTTLE = 0"

definition Controller_arming :: "controller \<Rightarrow> bool \<times> controller" where
  "Controller_arming c =
     (let retval = (if ready c then 1 / 10 < rawvals c CHANNEL_THROTTLE else False)
      in (retval, c\<lparr>ready := True\<rparr>))"

definition Controller_disarming :: "controller \<Rightarrow> bool \<times> controller" where
  "Controller_disarming c = (False, c)"

text \<open>Any sequence of calls of the two methods, with the values they return.\<close>

datatype controller_call = Arming | Disarming

fun Controller_calls :: "controller_call list \<Rightarrow> controller \<Rightarrow> (controller_call \<times> bool) list" where
  "Controller_calls [] c = []"
| "Controller_calls (Arming # calls) c =
     (Arming, fst (Controller_arming c)) # Controller_calls calls (snd (Controller_arming c))"
| "Controller_calls (Disarming # calls) c =
     (Disarming, fst (Controller_disarming c)) #
       Controller_calls calls (snd (Controller_disarming c))"

section \<open>Predicates and sample objects used by the theorems\<close>

text \<open>The windup bounds of \<^verbatim>\<open>Stabilize::update\<close>: 16000 on the rate integral, 10000 on the angle integral.\<close>

definition windup_ok :: "stabilize \<Rightarrow> bool" where
  "windup_ok s \<longleftrightarrow>
     (\<forall>axis < 3. - 16000 \<le> sint (errorGyroI s axis) \<and> sint (errorGyroI s axis) \<le> 16000) \<and>
     (\<forall>axis < 2. - 10000 \<le> sint (errorAngleI s axis) \<and> sint (errorAngleI s axis) \<le> 10000)"

text \<open>The bound \<^verbatim>\<open>gyroWindupMax\<close> of \<^verbatim>\<open>Stabilizer\<close>.\<close>

definition hf_windup_ok :: "stabilizer \<Rightarrow> bool" where
  "hf_windup_ok s \<longleftrightarrow> (\<forall>axis < 3. \<bar>hf_errorGyroI s axis\<bar> \<le> gyroWindupMax)"

text \<open>No divisor \<^verbatim>\<open>rate_p[axis]\<close> of \<^verbatim>\<open>Stabilize::update\<close> is zero.\<close>

definition rate_gains_nonzero :: "stabilize \<Rightarrow> bool" where
  "rate_gains_nonzero s \<longleftrightarrow> rate_p s 0 \<noteq> 0 \<and> rate_p s 1 \<noteq> 0 \<and> rate_p s 2 \<noteq> 0"

text \<open>A configuration, objects and inputs on which the theorems are instantiated.\<close>

definition sample_config :: config where
  "sample_config =
     \<lparr>CONFIG_RATE_PITCHROLL_P = 36, CONFIG_RATE_PITCHROLL_I = 30, CONFIG_RATE_PITCHROLL_D = 23,
      CONFIG_YAW_P = 85, CONFIG_YAW_I = 45, CONFIG_LEVEL_P = 90, CONFIG_LEVEL_I = 10,
      CONFIG_MAX_ANGLE_INCLINATION = 500, CONFIG_SMALL_ANGLE = 250\<rparr>"

definition blank_stabilize :: stabilize where
  "blank_stabilize =
     \<lparr>axisPID = (\<lambda>_. 0), rate_p = (\<lambda>_. 0), rate_i = (\<lambda>_. 0), rate_d = (\<lambda>_. 0),
      lastGyro = (\<lambda>_. 0), delta1 = (\<lambda>_. 0), delta2 = (\<lambda>_. 0),
      errorGyroI = (\<lambda>_. 7), errorAngleI = (\<lambda>_. 7)\<rparr>"

definition sample_input :: stab_input where
  "sample_input =
     \<lparr>rcCommand = (\<lambda>_. 0)(0 := 300, 2 := 150),
      gyroADC = (\<lambda>_. 0)(0 := 5, 1 := 700),
      angle = (\<lambda>_. 0)(0 := 20)\<rparr>"

definition blank_stabilizer :: stabilizer where
  "blank_stabilizer =
     \<lparr>levelP = 1, gyroCyclicP = 1, gyroCyclicI = 1, gyroCyclicD = 1, gyroYawP = 1, gyroYawI = 0,
      hf_lastGyro = (\<lambda>_. 3), gyroDelta1 = (\<lambda>_. 3), gyroDelta2 = (\<lambda>_. 3),
      hf_errorGyroI = (\<lambda>_. 3), bigGyroRate = 0, maxArmingAngle = 0\<rparr>"

definition zero_demands :: demands_t where
  "zero_demands = \<lparr>roll = 0, pitch = 0, yaw = 0\<rparr>"

text \<open>A disarmed craft with finished calibrations, and a receiver tick with the arm gesture.\<close>

definition sample_hackflight :: hackflight where
  "sample_hackflight =
     \<lparr>armed = False, calibratingG = 0, calibratingGyroCycles = 1000, calibratingAccCycles = 400,
      haveSmallAngle = True, accCalibrated = True, calibratingA = 0, taskOrder = 0,
      led_on = False, stab = Stabilize_init sample_config blank_stabilize\<rparr>"

definition sample_tick :: tick where
  "sample_tick =
     \<lparr>rcSerialReady = False, rcTask_due = True, throttleIsDown = True, changed = True,
      sticks = Sticks LO HI CE CE, auxState = 0, extrasTaskCount = 0, imuTask_due = True,
      accelCalibrationTask_due = False, rc_command = (\<lambda>_. 0), imu_gyroADC = (\<lambda>_. 0)(0 := 5),
      imu_angle = (\<lambda>_. 0)\<rparr>"

text \<open>
  Ticks on which the receiver reports no change of the sticks, a tick with the disarm
  gesture, and an armed craft.
\<close>

definition held_arm_tick :: tick where
  "held_arm_tick = sample_tick\<lparr>changed := False, imuTask_due := False\<rparr>"

definition held_disarm_tick :: tick where
  "held_disarm_tick =
     sample_tick\<lparr>changed := False, sticks := Sticks LO LO CE CE, imuTask_due := False\<rparr>"

definition disarm_tick :: tick where
  "disarm_tick = sample_tick\<lparr>sticks := Sticks LO LO CE CE\<rparr>"

definition armed_hackflight :: hackflight where
  "armed_hackflight = sample_hackflight\<lparr>armed := True, calibratingG := 12\<rparr>"

text \<open>Inputs with centred sticks, and with the roll stick at 500.\<close>

definition centred_input :: stab_input where
  "centred_input = \<lparr>rcCommand = (\<lambda>_. 0), gyroADC = (\<lambda>_. 0), angle = (\<lambda>_. 0)(0 := 20)\<rparr>"

definition full_roll_input :: stab_input where
  "full_roll_input =
     \<lparr>rcCommand = (\<lambda>_. 0)(0 := 500), gyroADC = (\<lambda>_. 0), angle = (\<lambda>_. 0)(0 := 20)\<rparr>"

text \<open>
  The all-zero input of \<^verbatim>\<open>Stabilize::update\<close>, and an axis whose controller memory is zero (the
  angle integral exists for roll and pitch only).
\<close>

definition zero_input :: stab_input where
  "zero_input = \<lparr>rcCommand = (\<lambda>_. 0), gyroADC = (\<lambda>_. 0), angle = (\<lambda>_. 0)\<rparr>"

definition at_rest :: "stabilize \<Rightarrow> nat \<Rightarrow> bool" where
  "at_rest s axis \<longleftrightarrow>
     errorGyroI s axis = 0 \<and> (axis < 2 \<longrightarrow> errorAngleI s axis = 0) \<and> lastGyro s axis = 0 \<and>
     delta1 s axis = 0 \<and> delta2 s axis = 0"

section \<open>Arithmetic of the machine integers\<close>

lemma sint_promote: "sint (promote x) = sint x"
  unfolding promote_def by (rule sint_up_scast) (simp add: is_up)

lemma sint_promote_range: "- 32768 \<le> sint (promote x) \<and> sint (promote x) \<le> 32767"
  using sint_ge [of x] sint_lt [of x] by (simp add: sint_promote)

lemma sint32_eq:
  "- 2147483648 \<le> k \<Longrightarrow> k \<le> 2147483647 \<Longrightarrow> sint (word_of_int k :: int32) = k"
  by (simp add: sint_sbintrunc' signed_take_bit_int_eq_self)

lemma sint_neg32: "- 2147483647 \<le> sint (x::int32) \<Longrightarrow> sint (- x) = - sint x"
  using sint32_eq [of "- sint x"] sint_lt [of x] by simp

lemma sint_c_abs_promote: "sint (c_abs (promote x)) = \<bar>sint x\<bar>"
  using sint_promote_range [of x] sint_neg32 [of "promote x"]
  by (simp add: c_abs_def word_sless_alt sint_promote)

lemma sint_add32:
  "- 2147483648 \<le> sint (a::int32) + sint b \<Longrightarrow> sint a + sint b \<le> 2147483647 \<Longrightarrow>
   sint (a + b) = sint a + sint b"
  using sint32_eq [of "sint a + sint b"] by simp

lemma sint_sub32:
  "- 2147483648 \<le> sint (a::int32) - sint b \<Longrightarrow> sint a - sint b \<le> 2147483647 \<Longrightarrow>
   sint (a - b) = sint a - sint b"
  using sint32_eq [of "sint a - sint b"] by simp

lemma sint_mult32:
  "- 2147483648 \<le> sint (a::int32) * sint b \<Longrightarrow> sint a * sint b \<le> 2147483647 \<Longrightarrow>
   sint (a * b) = sint a * sint b"
  using sint32_eq [of "sint a * sint b"] by simp

lemma sint_constrain:
  "sint lo \<le> sint hi \<Longrightarrow>
   sint lo \<le> sint (constrain v lo hi) \<and> sint (constrain v lo hi) \<le> sint hi"
  by (simp add: constrain_def word_sless_alt)

lemma lt3_cases: "axis < (3::nat) \<Longrightarrow> axis = 0 \<or> axis = 1 \<or> axis = 2"
  by arith

lemma lt2_cases: "axis < (2::nat) \<Longrightarrow> axis = 0 \<or> axis = 1"
  by arith

section \<open>Stabilize::update returns when the rate gains are not zero\<close>

lemma axis_step_rate_p: "axis_step cfg inp axis s = Some s' \<Longrightarrow> rate_p s' = rate_p s"
  by (auto simp: axis_step_def split: if_splits)

lemma axis_step_total: "rate_p s axis \<noteq> 0 \<Longrightarrow> \<exists>s'. axis_step cfg inp axis s = Some s'"
  by (simp add: axis_step_def)

lemma axis_loop_rate_p: "axis_loop cfg inp axes s = Some s' \<Longrightarrow> rate_p s' = rate_p s"
  by (induction axes arbitrary: s) (auto split: option.splits dest: axis_step_rate_p)

lemma axis_loop_total:
  "\<forall>axis \<in> set axes. rate_p s axis \<noteq> 0 \<Longrightarrow> \<exists>s'. axis_loop cfg inp axes s = Some s'"
proof (induction axes arbitrary: s)
  case Nil
  then show ?case by simp
next
  case (Cons axis axes)
  then obtain s1 where s1: "axis_step cfg inp axis s = Some s1"
    using axis_step_total [of s axis cfg inp] by auto
  then have "rate_p s1 = rate_p s" by (rule axis_step_rate_p)
  with Cons obtain s' where "axis_loop cfg inp axes s1 = Some s'" by fastforce
  with s1 show ?case by simp
qed

lemma update_SomeE:
  assumes "Stabilize_update cfg s inp = Some s'"
  obtains s1 where "axis_loop cfg inp [0, 1, 2] s = Some s1" and "s' = yaw_jump inp s1"
  using assms unfolding Stabilize_update_def
  by (cases "axis_loop cfg inp [0, 1, 2] s") simp_all

lemma update_total:
  assumes "rate_gains_nonzero s"
  shows "\<exists>s'. Stabilize_update cfg s inp = Some s' \<and> rate_gains_nonzero s'"
proof -
  from assms have "\<forall>axis \<in> set [0, 1, 2]. rate_p s axis \<noteq> 0"
    by (simp add: rate_gains_nonzero_def)
  then obtain s1 where loop: "axis_loop cfg inp [0, 1, 2] s = Some s1"
    using axis_loop_total by blast
  then have "rate_p s1 = rate_p s" by (rule axis_loop_rate_p)
  with assms have "rate_gains_nonzero (yaw_jump inp s1)"
    by (simp add: rate_gains_nonzero_def yaw_jump_def)
  with loop show ?thesis by (simp add: Stabilize_update_def)
qed

lemma resetIntegral_rate_p: "rate_p (Stabilize_resetIntegral s) = rate_p s"
  by (simp add: Stabilize_resetIntegral_def)

lemma resetIntegral_gains: "rate_gains_nonzero (Stabilize_resetIntegral s) = rate_gains_nonzero s"
  by (simp add: rate_gains_nonzero_def resetIntegral_rate_p)

lemma calls_total:
  "rate_gains_nonzero s \<Longrightarrow> \<exists>s'. Stabilize_calls cfg calls s = Some s'"
proof (induction cfg calls s rule: Stabilize_calls.induct)
  case (1 cfg s)
  then show ?case by simp
next
  case (2 cfg inp calls s)
  from update_total [OF "2.prems"] obtain s1
    where "Stabilize_update cfg s inp = Some s1" "rate_gains_nonzero s1" by blast
  with "2.IH" show ?case by simp
next
  case (3 cfg calls s)
  then show ?case by (simp add: resetIntegral_gains)
qed

lemma init_gains:
  "CONFIG_RATE_PITCHROLL_P cfg \<noteq> 0 \<Longrightarrow> CONFIG_YAW_P cfg \<noteq> 0 \<Longrightarrow>
   rate_gains_nonzero (Stabilize_init cfg s0)"
  by (simp add: Stabilize_init_def Let_def resetIntegral_rate_p rate_gains_nonzero_def)

section \<open>The windup bound\<close>

lemma next_errorGyroI_bound:
  "- 16000 \<le> sint (next_errorGyroI s inp axis) \<and> sint (next_errorGyroI s inp axis) \<le> 16000"
  using sint_constrain [of "- 16000" 16000] by (simp add: next_errorGyroI_def Let_def)

lemma next_errorAngleI_bound:
  "- 10000 \<le> sint (next_errorAngleI cfg s inp axis) \<and>
   sint (next_errorAngleI cfg s inp axis) \<le> 10000"
  using sint_constrain [of "- 10000" 10000] by (simp add: next_errorAngleI_def)

lemma axis_step_windup:
  "axis_step cfg inp axis s = Some s' \<Longrightarrow> windup_ok s \<Longrightarrow> windup_ok s'"
  using next_errorGyroI_bound next_errorAngleI_bound
  by (auto simp: axis_step_def windup_ok_def split: if_splits)

lemma axis_loop_windup:
  "axis_loop cfg inp axes s = Some s' \<Longrightarrow> windup_ok s \<Longrightarrow> windup_ok s'"
  by (induction axes arbitrary: s) (auto split: option.splits dest: axis_step_windup)

lemma yaw_jump_windup: "windup_ok (yaw_jump inp s) = windup_ok s"
  by (simp add: yaw_jump_def windup_ok_def)

lemma update_windup:
  assumes "Stabilize_update cfg s inp = Some s'" and "windup_ok s"
  shows "windup_ok s'"
proof -
  from assms(1) obtain s1 where loop: "axis_loop cfg inp [0, 1, 2] s = Some s1"
    and s': "s' = yaw_jump inp s1" by (rule update_SomeE)
  from loop assms(2) have "windup_ok s1" by (rule axis_loop_windup)
  with s' show ?thesis by (simp add: yaw_jump_windup)
qed

lemma resetIntegral_windup: "windup_ok (Stabilize_resetIntegral s)"
  unfolding windup_ok_def Stabilize_resetIntegral_def AXIS_ROLL_def AXIS_PITCH_def AXIS_YAW_def
  by (auto dest!: lt3_cases lt2_cases)

lemma init_windup: "windup_ok (Stabilize_init cfg s0)"
  by (simp add: Stabilize_init_def Let_def resetIntegral_windup)

lemma calls_windup:
  "Stabilize_calls cfg calls s = Some s' \<Longrightarrow> windup_ok s \<Longrightarrow> windup_ok s'"
proof (induction cfg calls s rule: Stabilize_calls.induct)
  case (1 cfg s)
  then show ?case by simp
next
  case (2 cfg inp calls s)
  then show ?case
    by (cases "Stabilize_update cfg s inp") (auto dest: update_windup)
next
  case (3 cfg calls s)
  then show ?case by (simp add: resetIntegral_windup)
qed

lemma constrainAbs_bound: "0 \<le> b \<Longrightarrow> \<bar>Filter_constrainAbs v b\<bar> \<le> b"
  by (auto simp: Filter_constrainAbs_def)

lemma computeITermGyro_errorGyroI:
  "hf_errorGyroI (snd (computeITermGyro rateP rateI command gyro axis s)) =
     (hf_errorGyroI s)(axis :=
        (if bigGyroRate s < \<bar>gyro axis\<bar> \<or> (axis = AXIS_YAW \<and> bigYawDemand < \<bar>command\<bar>) then 0
         else Filter_constrainAbs (hf_errorGyroI s axis + (command * rateP - gyro axis))
                gyroWindupMax))"
  by (simp add: computeITermGyro_def Let_def)

lemma computeITermGyro_bigGyroRate:
  "bigGyroRate (snd (computeITermGyro rateP rateI command gyro axis s)) = bigGyroRate s"
  by (simp add: computeITermGyro_def Let_def)

lemma computeCyclicPid_errorGyroI:
  "hf_errorGyroI (snd (computeCyclicPid command proportion eulerAngles gyro imuAxis s)) =
   hf_errorGyroI (snd (computeITermGyro (gyroCyclicP s) (gyroCyclicI s) command gyro imuAxis s))"
  by (simp add: computeCyclicPid_def Let_def case_prod_beta)

lemma computeCyclicPid_bigGyroRate:
  "bigGyroRate (snd (computeCyclicPid command proportion eulerAngles gyro imuAxis s)) =
   bigGyroRate s"
  by (simp add: computeCyclicPid_def Let_def case_prod_beta computeITermGyro_bigGyroRate)

lemma updateDemands_state:
  "snd (Stabilizer_updateDemands eulerAngles gyroRates demands s) =
     (let s1 = snd (computeCyclicPid (roll demands) (cyclic_prop demands) eulerAngles gyroRates
                      AXIS_ROLL s);
          s2 = snd (computeCyclicPid (pitch demands) (cyclic_prop demands) eulerAngles gyroRates
                      AXIS_PITCH s1)
      in snd (computeITermGyro (gyroYawP s2) (gyroYawI s2) (yaw demands) gyroRates AXIS_YAW s2))"
  by (simp add: Stabilizer_updateDemands_def Let_def case_prod_beta)

lemma computeITermGyro_windup:
  "hf_windup_ok s \<Longrightarrow> hf_windup_ok (snd (computeITermGyro rateP rateI command gyro axis s))"
  unfolding hf_windup_ok_def computeITermGyro_errorGyroI
  using constrainAbs_bound [of gyroWindupMax]
  by (simp add: gyroWindupMax_def)

lemma computeCyclicPid_windup:
  "hf_windup_ok s \<Longrightarrow>
   hf_windup_ok (snd (computeCyclicPid command proportion eulerAngles gyro imuAxis s))"
  using computeITermGyro_windup [of s "gyroCyclicP s" "gyroCyclicI s" command gyro imuAxis]
  by (simp add: hf_windup_ok_def computeCyclicPid_errorGyroI)

lemma updateDemands_windup:
  "hf_windup_ok s \<Longrightarrow>
   hf_windup_ok (snd (Stabilizer_updateDemands eulerAngles gyroRates demands s))"
  by (simp add: updateDemands_state Let_def computeITermGyro_windup computeCyclicPid_windup)

lemma hf_resetIntegral_windup: "hf_windup_ok (Stabilizer_resetIntegral s)"
  unfolding hf_windup_ok_def Stabilizer_resetIntegral_def AXIS_ROLL_def AXIS_PITCH_def AXIS_YAW_def
  by (auto dest!: lt3_cases simp: gyroWindupMax_def)

lemma hf_init_windup: "hf_windup_ok (Stabilizer_init s0)"
  by (simp add: Stabilizer_init_def Let_def hf_resetIntegral_windup)

lemma hf_calls_windup:
  "hf_windup_ok s \<Longrightarrow> hf_windup_ok (Stabilizer_calls calls s)"
  by (induction calls s rule: Stabilizer_calls.induct)
     (simp_all add: updateDemands_windup hf_resetIntegral_windup)

text \<open>
  Claim C1. After \<^verbatim>\<open>init\<close>, whatever sequence of \<^verbatim>\<open>update\<close> and \<^verbatim>\<open>resetIntegral\<close> calls
  follows and whatever demands, rates and angles they carry, the magnitude of the integral
  accumulator of every axis is within the windup bound when the last call returns. For the
  fixed-point class the calls do return (the rate gains of the configuration not being
  zero), the rate integral is within 16000 and the angle integral of roll and pitch within
  10000; for the floating-point class the integral is within \<^verbatim>\<open>gyroWindupMax\<close>.
\<close>

theorem errorI_within_windup_bound:
  assumes "CONFIG_RATE_PITCHROLL_P cfg \<noteq> 0" and "CONFIG_YAW_P cfg \<noteq> 0" and "axis < 3"
  shows "(\<exists>s. Stabilize_calls cfg calls (Stabilize_init cfg s0) = Some s \<and>
              \<bar>sint (errorGyroI s axis)\<bar> \<le> 16000 \<and>
              (axis < 2 \<longrightarrow> \<bar>sint (errorAngleI s axis)\<bar> \<le> 10000)) \<and>
         \<bar>hf_errorGyroI (Stabilizer_calls hf_calls (Stabilizer_init h0)) axis\<bar> \<le> gyroWindupMax"
proof -
  from assms(1,2) have "rate_gains_nonzero (Stabilize_init cfg s0)" by (rule init_gains)
  then obtain s where s: "Stabilize_calls cfg calls (Stabilize_init cfg s0) = Some s"
    using calls_total by blast
  then have "windup_ok s" using init_windup by (rule calls_windup)
  with assms(3) have "\<bar>sint (errorGyroI s axis)\<bar> \<le> 16000 \<and>
      (axis < 2 \<longrightarrow> \<bar>sint (errorAngleI s axis)\<bar> \<le> 10000)"
    unfolding windup_ok_def by (auto simp: abs_le_iff)
  with s have fixed: "\<exists>s. Stabilize_calls cfg calls (Stabilize_init cfg s0) = Some s \<and>
      \<bar>sint (errorGyroI s axis)\<bar> \<le> 16000 \<and> (axis < 2 \<longrightarrow> \<bar>sint (errorAngleI s axis)\<bar> \<le> 10000)"
    by blast
  have "hf_windup_ok (Stabilizer_calls hf_calls (Stabilizer_init h0))"
    using hf_init_windup by (rule hf_calls_windup)
  with assms(3) have "\<bar>hf_errorGyroI (Stabilizer_calls hf_calls (Stabilizer_init h0)) axis\<bar>
      \<le> gyroWindupMax"
    by (simp add: hf_windup_ok_def)
  with fixed show ?thesis by blast
qed

theorem errorI_within_windup_bound_witness:
  "CONFIG_RATE_PITCHROLL_P sample_config \<noteq> 0 \<and> CONFIG_YAW_P sample_config \<noteq> 0 \<and> (0::nat) < 3 \<and>
   (\<exists>s. Stabilize_calls sample_config [Update sample_input, ResetIntegral, Update sample_input]
           (Stabilize_init sample_config blank_stabilize) = Some s \<and>
        \<bar>sint (errorGyroI s 0)\<bar> \<le> 16000 \<and> \<bar>sint (errorAngleI s 0)\<bar> \<le> 10000) \<and>
   \<bar>hf_errorGyroI
      (Stabilizer_calls [UpdateDemands (\<lambda>_. 0) (\<lambda>_. 100) zero_demands, HfResetIntegral]
         (Stabilizer_init blank_stabilizer)) 0\<bar> \<le> gyroWindupMax"
  using errorI_within_windup_bound [of sample_config 0
      "[Update sample_input, ResetIntegral, Update sample_input]" blank_stabilize
      "[UpdateDemands (\<lambda>_. 0) (\<lambda>_. 100) zero_demands, HfResetIntegral]" blank_stabilizer]
  by (simp add: sample_config_def)


section \<open>Reset of the integral on a big rate or a big yaw demand\<close>

lemma axis_step_errorGyroI:
  "axis_step cfg inp axis s = Some s' \<Longrightarrow>
   errorGyroI s' = (errorGyroI s)(axis := next_errorGyroI s inp axis)"
  by (auto simp: axis_step_def split: if_splits)

lemma axis_loop_errorGyroI_other:
  "axis_loop cfg inp axes s = Some s' \<Longrightarrow> a \<notin> set axes \<Longrightarrow> errorGyroI s' a = errorGyroI s a"
proof (induction axes arbitrary: s)
  case Nil
  then show ?case by simp
next
  case (Cons axis axes)
  from Cons.prems(1) obtain s1 where s1: "axis_step cfg inp axis s = Some s1"
    and rest: "axis_loop cfg inp axes s1 = Some s'"
    by (cases "axis_step cfg inp axis s") simp_all
  from rest Cons.prems(2) have "errorGyroI s' a = errorGyroI s1 a" by (simp add: Cons.IH)
  with axis_step_errorGyroI [OF s1] Cons.prems(2) show ?case by simp
qed

lemma next_errorGyroI_reset:
  assumes "640 < \<bar>sint (gyroADC inp a)\<bar> \<or> (a = AXIS_YAW \<and> 100 < \<bar>sint (rcCommand inp a)\<bar>)"
  shows "next_errorGyroI s inp a = 0"
  using assms by (auto simp: next_errorGyroI_def Let_def word_sless_alt sint_c_abs_promote)

lemma axis_loop_reset:
  assumes "axis_loop cfg inp axes s = Some s'" and "distinct axes" and "a \<in> set axes"
    and "640 < \<bar>sint (gyroADC inp a)\<bar> \<or> (a = AXIS_YAW \<and> 100 < \<bar>sint (rcCommand inp a)\<bar>)"
  shows "errorGyroI s' a = 0"
  using assms(1-3)
proof (induction axes arbitrary: s)
  case Nil
  then show ?case by simp
next
  case (Cons axis axes)
  from Cons.prems(1) obtain s1 where s1: "axis_step cfg inp axis s = Some s1"
    and rest: "axis_loop cfg inp axes s1 = Some s'"
    by (cases "axis_step cfg inp axis s") simp_all
  show ?case
  proof (cases "a = axis")
    case True
    with Cons.prems(2) have "a \<notin> set axes" by simp
    with rest have "errorGyroI s' a = errorGyroI s1 a" by (rule axis_loop_errorGyroI_other)
    also have "\<dots> = next_errorGyroI s inp a"
      using axis_step_errorGyroI [OF s1] True by simp
    also have "\<dots> = 0" using assms(4) by (rule next_errorGyroI_reset)
    finally show ?thesis .
  next
    case False
    with Cons.prems have "distinct axes" "a \<in> set axes" by simp_all
    with rest show ?thesis by (rule Cons.IH)
  qed
qed

lemma update_reset:
  assumes "Stabilize_update cfg s inp = Some s'" and "axis < 3"
    and "640 < \<bar>sint (gyroADC inp axis)\<bar> \<or>
         (axis = AXIS_YAW \<and> 100 < \<bar>sint (rcCommand inp DEMAND_YAW)\<bar>)"
  shows "errorGyroI s' axis = 0"
proof -
  from assms(1) obtain s1 where loop: "axis_loop cfg inp [0, 1, 2] s = Some s1"
    and s': "s' = yaw_jump inp s1" by (rule update_SomeE)
  from assms(2) have mem: "axis \<in> set [0, 1, 2]" by auto
  from assms(3) have "640 < \<bar>sint (gyroADC inp axis)\<bar> \<or>
      (axis = AXIS_YAW \<and> 100 < \<bar>sint (rcCommand inp axis)\<bar>)"
    by (auto simp: AXIS_YAW_def DEMAND_YAW_def)
  with loop mem have "errorGyroI s1 axis = 0"
    by (intro axis_loop_reset [of cfg inp "[0, 1, 2]" s s1]) simp_all
  with s' show ?thesis by (simp add: yaw_jump_def)
qed

lemma updateDemands_reset:
  assumes "axis < 3"
    and "bigGyroRate s < \<bar>gyroRates axis\<bar> \<or> (axis = AXIS_YAW \<and> bigYawDemand < \<bar>yaw demands\<bar>)"
  shows "hf_errorGyroI (snd (Stabilizer_updateDemands eulerAngles gyroRates demands s)) axis = 0"
  using lt3_cases [OF assms(1)] assms(2)
  by (auto simp: updateDemands_state Let_def computeITermGyro_errorGyroI
      computeCyclicPid_errorGyroI computeITermGyro_bigGyroRate computeCyclicPid_bigGyroRate
      AXIS_ROLL_def AXIS_PITCH_def AXIS_YAW_def)

text \<open>
  Claim C6. In one \<^verbatim>\<open>update\<close>, for each of the three axes: when the magnitude of the measured
  rate of the axis is above the big-rate threshold (640 in \<^verbatim>\<open>Stabilize\<close>, \<^verbatim>\<open>bigGyroRate\<close> in
  \<^verbatim>\<open>Stabilizer\<close>), or the axis is yaw and the magnitude of the pilot's yaw demand is above the
  big-yaw-demand threshold (100, \<^verbatim>\<open>bigYawDemand\<close>), the integral accumulator of that axis is
  zero when the call returns; the fixed-point call does return, its rate gains not being zero.
\<close>

theorem big_rate_or_yaw_demand_resets_errorI:
  assumes "axis < 3"
  shows "(rate_gains_nonzero s \<and>
          (640 < \<bar>sint (gyroADC inp axis)\<bar> \<or>
           (axis = AXIS_YAW \<and> 100 < \<bar>sint (rcCommand inp DEMAND_YAW)\<bar>)) \<longrightarrow>
          (\<exists>s'. Stabilize_update cfg s inp = Some s' \<and> errorGyroI s' axis = 0)) \<and>
         (bigGyroRate h < \<bar>gyroRates axis\<bar> \<or> (axis = AXIS_YAW \<and> bigYawDemand < \<bar>yaw demands\<bar>) \<longrightarrow>
          hf_errorGyroI (snd (Stabilizer_updateDemands eulerAngles gyroRates demands h)) axis = 0)"
proof (intro conjI impI)
  assume a: "rate_gains_nonzero s \<and>
          (640 < \<bar>sint (gyroADC inp axis)\<bar> \<or>
           (axis = AXIS_YAW \<and> 100 < \<bar>sint (rcCommand inp DEMAND_YAW)\<bar>))"
  then obtain s' where s': "Stabilize_update cfg s inp = Some s'"
    using update_total by blast
  from a have "640 < \<bar>sint (gyroADC inp axis)\<bar> \<or>
      (axis = AXIS_YAW \<and> 100 < \<bar>sint (rcCommand inp DEMAND_YAW)\<bar>)" by simp
  with s' assms have "errorGyroI s' axis = 0" by (rule update_reset)
  with s' show "\<exists>s'. Stabilize_update cfg s inp = Some s' \<and> errorGyroI s' axis = 0" by blast
next
  assume "bigGyroRate h < \<bar>gyroRates axis\<bar> \<or> (axis = AXIS_YAW \<and> bigYawDemand < \<bar>yaw demands\<bar>)"
  with assms show "hf_errorGyroI (snd (Stabilizer_updateDemands eulerAngles gyroRates demands h)) axis = 0"
    by (rule updateDemands_reset)
qed

lemma init_sample_gains: "rate_gains_nonzero (Stabilize_init sample_config blank_stabilize)"
  by (rule init_gains) (simp_all add: sample_config_def)

theorem big_rate_or_yaw_demand_resets_errorI_witness:
  "(2::nat) < 3 \<and> rate_gains_nonzero (Stabilize_init sample_config blank_stabilize) \<and>
   100 < \<bar>sint (rcCommand sample_input DEMAND_YAW)\<bar> \<and>
   (\<exists>s'. Stabilize_update sample_config (Stabilize_init sample_config blank_stabilize) sample_input
            = Some s' \<and> errorGyroI s' 2 = 0) \<and>
   bigYawDemand < \<bar>yaw \<lparr>roll = 0, pitch = 0, yaw = 1\<rparr>\<bar> \<and>
   hf_errorGyroI (snd (Stabilizer_updateDemands (\<lambda>_. 0) (\<lambda>_. 0) \<lparr>roll = 0, pitch = 0, yaw = 1\<rparr>
                         (Stabilizer_init blank_stabilizer))) 2 = 0"
  using big_rate_or_yaw_demand_resets_errorI [where axis = 2
      and s = "Stabilize_init sample_config blank_stabilize" and inp = sample_input
      and cfg = sample_config and h = "Stabilizer_init blank_stabilizer"
      and gyroRates = "\<lambda>_. 0" and eulerAngles = "\<lambda>_. 0"
      and demands = "\<lparr>roll = 0, pitch = 0, yaw = 1\<rparr>"] init_sample_gains
  by (simp add: sample_input_def DEMAND_YAW_def AXIS_YAW_def bigYawDemand_def)

section \<open>The bound against a yaw jump\<close>

lemma constrainAbs_own_magnitude: "Filter_constrainAbs v (1 / 10 + \<bar>v\<bar>) = v"
  by (auto simp: Filter_constrainAbs_def)

lemma updateDemands_yaw:
  "yaw (fst (Stabilizer_updateDemands eulerAngles gyroRates demands s)) =
     (let s2 = snd (computeCyclicPid (pitch demands) (cyclic_prop demands) eulerAngles gyroRates
                      AXIS_PITCH
                 (snd (computeCyclicPid (roll demands) (cyclic_prop demands) eulerAngles gyroRates
                      AXIS_ROLL s)))
      in computePid (gyroYawP s2) (yaw demands)
           (fst (computeITermGyro (gyroYawP s2) (gyroYawI s2) (yaw demands) gyroRates AXIS_YAW s2))
           0 gyroRates AXIS_YAW)"
  by (simp add: Stabilizer_updateDemands_def Let_def case_prod_beta constrainAbs_own_magnitude
      computeITermGyro_def)

lemma yaw_jump_bound:
  "\<bar>sint (axisPID (yaw_jump inp s) AXIS_YAW)\<bar> \<le> 100 + \<bar>sint (rcCommand inp DEMAND_YAW)\<bar>"
proof -
  let ?a = "c_abs (promote (rcCommand inp DEMAND_YAW))"
  have a: "sint ?a = \<bar>sint (rcCommand inp DEMAND_YAW)\<bar>" by (rule sint_c_abs_promote)
  have r: "\<bar>sint (rcCommand inp DEMAND_YAW)\<bar> \<le> 32768"
    using sint_ge [of "rcCommand inp DEMAND_YAW"] sint_lt [of "rcCommand inp DEMAND_YAW"] by simp
  have hi: "sint (100 + ?a) = 100 + \<bar>sint (rcCommand inp DEMAND_YAW)\<bar>"
    using sint_add32 [of 100 ?a] a r by simp
  have lo: "sint (- 100 - ?a) = - 100 - \<bar>sint (rcCommand inp DEMAND_YAW)\<bar>"
    using sint_sub32 [of "- 100" ?a] a r by simp
  have "sint (- 100 - ?a) \<le> sint (100 + ?a)" using hi lo by simp
  from sint_constrain [OF this, of "axisPID s AXIS_YAW"] hi lo
  show ?thesis by (simp add: yaw_jump_def abs_le_iff)
qed

lemma Stabilize_update_yaw_bound:
  assumes "Stabilize_update cfg s inp = Some s'"
  shows "\<bar>sint (axisPID s' AXIS_YAW)\<bar> \<le> 100 + \<bar>sint (rcCommand inp DEMAND_YAW)\<bar>"
proof -
  from assms obtain s1 where "s' = yaw_jump inp s1" by (rule update_SomeE)
  then show ?thesis by (simp add: yaw_jump_bound)
qed

text \<open>
  Claim C4. The yaw output of an update is to lie within \<open>\<plusminus>(baseBound + |demand.yaw|)\<close> of the
  pilot's yaw demand passed in. \<^verbatim>\<open>Stabilize::update\<close> does that (\<open>Stabilize_update_yaw_bound\<close>
  above, with bound 100). \<^verbatim>\<open>Stabilizer::updateDemands\<close> clamps \<^verbatim>\<open>demands.yaw\<close> against
  \<open>0.1 + |demands.yaw|\<close> after it has stored the output in \<^verbatim>\<open>demands.yaw\<close>, which changes nothing
  (\<open>constrainAbs_own_magnitude\<close>): with a yaw demand of 0, a yaw rate of 1 and a yaw gain
  \<^verbatim>\<open>gyroYawP\<close> of 1 the output is \<open>-1\<close>, outside \<open>\<plusminus>0.1\<close>.
\<close>

theorem hf_yaw_output_exceeds_bound:
  "yaw (fst (Stabilizer_updateDemands (\<lambda>_. 0) ((\<lambda>_. 0)(2 := 1)) zero_demands
               (Stabilizer_init blank_stabilizer))) = - 1 \<and>
   \<not> \<bar>yaw (fst (Stabilizer_updateDemands (\<lambda>_. 0) ((\<lambda>_. 0)(2 := 1)) zero_demands
               (Stabilizer_init blank_stabilizer)))\<bar> \<le> 1 / 10 + \<bar>yaw zero_demands\<bar>"
proof -
  have "yaw (fst (Stabilizer_updateDemands (\<lambda>_. 0) ((\<lambda>_. 0)(2 := 1)) zero_demands
               (Stabilizer_init blank_stabilizer))) = - 1"
    by (simp add: updateDemands_yaw Let_def computePid_def computeITermGyro_def
        computeCyclicPid_def case_prod_beta Stabilizer_init_def Stabilizer_resetIntegral_def
        blank_stabilizer_def zero_demands_def AXIS_YAW_def AXIS_ROLL_def AXIS_PITCH_def)
  then show ?thesis by (simp add: zero_demands_def)
qed

section \<open>Initialisation followed by an update on zero inputs\<close>


lemma init_errorGyroI: "axis < 3 \<Longrightarrow> hf_errorGyroI (Stabilizer_init s0) axis = 0"
  by (auto dest!: lt3_cases
      simp: Stabilizer_init_def Let_def Stabilizer_resetIntegral_def AXIS_ROLL_def AXIS_PITCH_def
        AXIS_YAW_def)

lemma init_history:
  "axis < 2 \<Longrightarrow> hf_lastGyro (Stabilizer_init s0) axis = 0 \<and>
     gyroDelta1 (Stabilizer_init s0) axis = 0 \<and> gyroDelta2 (Stabilizer_init s0) axis = 0"
  by (auto dest!: lt2_cases simp: Stabilizer_init_def Let_def Stabilizer_resetIntegral_def)

lemma computeITermGyro_zero:
  "hf_errorGyroI s axis = 0 \<Longrightarrow>
   computeITermGyro rateP rateI 0 (\<lambda>_. 0) axis s = (0, s)"
  by (simp add: computeITermGyro_def Let_def Filter_constrainAbs_def gyroWindupMax_def
      fun_upd_idem)

lemma computeCyclicPid_zero:
  assumes "hf_errorGyroI s axis = 0" and "hf_lastGyro s axis = 0"
    and "gyroDelta1 s axis = 0" and "gyroDelta2 s axis = 0"
  shows "computeCyclicPid 0 0 (\<lambda>_. 0) (\<lambda>_. 0) axis s = (0, s)"
  using assms
  by (simp add: computeCyclicPid_def computeITermGyro_zero Let_def computePid_def
      cyclic_PTerm_def PTermEuler_def Filter_complementary_def fun_upd_idem)

text \<open>
  Claim C8. \<^verbatim>\<open>init\<close> followed at once by \<^verbatim>\<open>updateDemands\<close> with zero demands, zero Euler
  angles and zero rates returns zero roll, pitch and yaw demands, whatever the gains and
  whatever the object held before \<^verbatim>\<open>init\<close>.
\<close>

theorem init_then_zero_update_is_zero:
  "fst (Stabilizer_updateDemands (\<lambda>_. 0) (\<lambda>_. 0) \<lparr>roll = 0, pitch = 0, yaw = 0\<rparr>
          (Stabilizer_init s0)) = \<lparr>roll = 0, pitch = 0, yaw = 0\<rparr>"
proof -
  let ?s = "Stabilizer_init s0"
  have p: "cyclic_prop \<lparr>roll = 0, pitch = 0, yaw = 0\<rparr> = 0"
    by (simp add: cyclic_prop_def Filter_max_def)
  have r: "computeCyclicPid 0 0 (\<lambda>_. 0) (\<lambda>_. 0) AXIS_ROLL ?s = (0, ?s)"
    by (rule computeCyclicPid_zero) (simp_all add: init_errorGyroI init_history AXIS_ROLL_def)
  have q: "computeCyclicPid 0 0 (\<lambda>_. 0) (\<lambda>_. 0) AXIS_PITCH ?s = (0, ?s)"
    by (rule computeCyclicPid_zero) (simp_all add: init_errorGyroI init_history AXIS_PITCH_def)
  have y: "computeITermGyro (gyroYawP ?s) (gyroYawI ?s) 0 (\<lambda>_. 0) AXIS_YAW ?s = (0, ?s)"
    by (rule computeITermGyro_zero) (simp add: init_errorGyroI AXIS_YAW_def)
  show ?thesis
    unfolding Stabilizer_updateDemands_def
    by (simp add: p r q y Let_def computePid_def Filter_constrainAbs_def)
qed


lemma c_div_0: "c_div 0 b = 0"
  by (simp add: c_div_def)

lemma promote_0: "promote 0 = 0"
  by (simp add: promote_def)

lemma axis_step_zero:
  assumes "rate_p s axis \<noteq> 0" and "at_rest s axis" and "0 \<le> sint (CONFIG_MAX_ANGLE_INCLINATION cfg)"
  shows "axis_step cfg zero_input axis s = Some (s\<lparr>axisPID := (axisPID s)(axis := 0)\<rparr>)"
proof -
  have hi: "\<not> CONFIG_MAX_ANGLE_INCLINATION cfg <s 0"
    using assms(3) by (simp add: word_sless_alt)
  have lo: "\<not> 0 <s - CONFIG_MAX_ANGLE_INCLINATION cfg"
  proof (cases "- 2147483647 \<le> sint (CONFIG_MAX_ANGLE_INCLINATION cfg)")
    case True
    then show ?thesis using assms(3) sint_neg32 [of "CONFIG_MAX_ANGLE_INCLINATION cfg"]
      by (simp add: word_sless_alt)
  next
    case False
    with assms(3) show ?thesis by simp
  qed
  have e: "errorAngle cfg zero_input axis = 0"
    using hi lo by (simp add: errorAngle_def Let_def zero_input_def promote_0)
  have g: "next_errorGyroI s zero_input axis = 0"
    using assms(2)
    by (simp add: next_errorGyroI_def gyro_error_def Let_def zero_input_def promote_0 c_div_0
        at_rest_def constrain_def c_abs_def word_sless_alt)
  have a: "axis < 2 \<Longrightarrow> next_errorAngleI cfg s zero_input axis = 0"
    using assms(2) e by (simp add: next_errorAngleI_def at_rest_def constrain_def word_sless_alt)
  have p: "blend_prop zero_input = 0"
    by (simp add: blend_prop_def c_max_def c_abs_def zero_input_def promote_0)
  have pid: "axis_PTerm cfg s zero_input axis + blend_ITerm cfg s zero_input axis -
      axis_DTerm s zero_input axis = 0"
    using assms(2) e g a p
    by (simp add: axis_PTerm_def blend_PTerm_def blend_ITerm_def axis_DTerm_def PTermACC_def
        PTermGYRO_def ITermACC_def ITermGYRO_def axis_deltaSum_def axis_delta_def at_rest_def
        c_div_0 promote_0 zero_input_def)
  show ?thesis
    using assms(1,2) g a pid
    by (simp add: axis_step_def at_rest_def axis_delta_def zero_input_def promote_0 fun_upd_idem)
qed

lemma init_at_rest: "axis < 3 \<Longrightarrow> at_rest (Stabilize_init cfg s0) axis"
  by (auto dest!: lt3_cases
      simp: at_rest_def Stabilize_init_def Let_def Stabilize_resetIntegral_def AXIS_ROLL_def
        AXIS_PITCH_def AXIS_YAW_def)

lemma at_rest_axisPID: "at_rest (s\<lparr>axisPID := f\<rparr>) axis = at_rest s axis"
  by (simp add: at_rest_def)

text \<open>
  The fixed-point class behaves alike: \<^verbatim>\<open>init\<close> followed by \<^verbatim>\<open>update\<close> on zero inputs leaves
  zero in \<^verbatim>\<open>axisPID\<close>, for non-zero rate gains and a maximal inclination that is not negative.
\<close>

lemma Stabilize_init_then_zero_update:
  assumes "CONFIG_RATE_PITCHROLL_P cfg \<noteq> 0" and "CONFIG_YAW_P cfg \<noteq> 0"
    and "0 \<le> sint (CONFIG_MAX_ANGLE_INCLINATION cfg)" and "axis < 3"
  shows "\<exists>s'. Stabilize_update cfg (Stabilize_init cfg s0) zero_input = Some s' \<and> axisPID s' axis = 0"
proof -
  let ?s = "Stabilize_init cfg s0"
  let ?s1 = "?s\<lparr>axisPID := (axisPID ?s)(0 := 0)\<rparr>"
  let ?s2 = "?s1\<lparr>axisPID := (axisPID ?s1)(1 := 0)\<rparr>"
  let ?s3 = "?s2\<lparr>axisPID := (axisPID ?s2)(2 := 0)\<rparr>"
  from assms(1,2) have g: "rate_gains_nonzero ?s" by (rule init_gains)
  have r: "at_rest ?s 0" "at_rest ?s 1" "at_rest ?s 2" by (simp_all add: init_at_rest)
  have 1: "axis_step cfg zero_input 0 ?s = Some ?s1"
    using g r(1) assms(3) by (intro axis_step_zero) (simp_all add: rate_gains_nonzero_def)
  have 2: "axis_step cfg zero_input 1 ?s1 = Some ?s2"
    using g r(2) assms(3)
    by (intro axis_step_zero) (simp_all add: rate_gains_nonzero_def at_rest_axisPID)
  have 3: "axis_step cfg zero_input 2 ?s2 = Some ?s3"
    using g r(3) assms(3)
    by (intro axis_step_zero) (simp_all add: rate_gains_nonzero_def at_rest_axisPID)
  have loop: "axis_loop cfg zero_input [0, 1, 2] ?s = Some ?s3"
    by (simp only: axis_loop.simps 1 2 3 option.case)
  have y: "constrain 0 (- 100 - c_abs (promote (rcCommand zero_input DEMAND_YAW)))
      (100 + c_abs (promote (rcCommand zero_input DEMAND_YAW))) = 0"
    by (simp add: constrain_def c_abs_def zero_input_def promote_0 word_sless_alt)
  have "axisPID (yaw_jump zero_input ?s3) axis = 0"
    using lt3_cases [OF assms(4)] y by (auto simp: yaw_jump_def AXIS_YAW_def)
  with loop show ?thesis by (simp only: Stabilize_update_def option.case) simp
qed

section \<open>What an integral reset leaves alone\<close>

text \<open>
  Claim C9. \<^verbatim>\<open>resetIntegral\<close> changes the integral accumulators only. In \<^verbatim>\<open>Stabilize\<close> the
  derivative history (\<^verbatim>\<open>lastGyro\<close>, \<^verbatim>\<open>delta1\<close>, \<^verbatim>\<open>delta2\<close>), the gains and \<^verbatim>\<open>axisPID\<close> are
  as before; in \<^verbatim>\<open>Stabilizer\<close> the object differs from the one before in \<^verbatim>\<open>errorGyroI\<close> at
  most, so \<^verbatim>\<open>lastGyro\<close>, \<^verbatim>\<open>gyroDelta1\<close>, \<^verbatim>\<open>gyroDelta2\<close> and the gains are as before.
\<close>

theorem resetIntegral_frame:
  "lastGyro (Stabilize_resetIntegral s) = lastGyro s \<and>
   delta1 (Stabilize_resetIntegral s) = delta1 s \<and>
   delta2 (Stabilize_resetIntegral s) = delta2 s \<and>
   rate_p (Stabilize_resetIntegral s) = rate_p s \<and>
   rate_i (Stabilize_resetIntegral s) = rate_i s \<and>
   rate_d (Stabilize_resetIntegral s) = rate_d s \<and>
   axisPID (Stabilize_resetIntegral s) = axisPID s \<and>
   Stabilizer_resetIntegral h = h\<lparr>hf_errorGyroI := hf_errorGyroI (Stabilizer_resetIntegral h)\<rparr> \<and>
   hf_lastGyro (Stabilizer_resetIntegral h) = hf_lastGyro h \<and>
   gyroDelta1 (Stabilizer_resetIntegral h) = gyroDelta1 h \<and>
   gyroDelta2 (Stabilizer_resetIntegral h) = gyroDelta2 h \<and>
   levelP (Stabilizer_resetIntegral h) = levelP h \<and>
   gyroCyclicP (Stabilizer_resetIntegral h) = gyroCyclicP h \<and>
   gyroCyclicI (Stabilizer_resetIntegral h) = gyroCyclicI h \<and>
   gyroCyclicD (Stabilizer_resetIntegral h) = gyroCyclicD h \<and>
   gyroYawP (Stabilizer_resetIntegral h) = gyroYawP h \<and>
   gyroYawI (Stabilizer_resetIntegral h) = gyroYawI h"
  by (simp add: Stabilize_resetIntegral_def Stabilizer_resetIntegral_def)

section \<open>The simulator receiver\<close>

lemma disarming_False: "fst (Controller_disarming c) = False"
  by (simp add: Controller_disarming_def)

text \<open>
  Claim C10. \<^verbatim>\<open>Controller::disarming\<close> returns false on every call and leaves the object as
  it is: in any sequence of \<^verbatim>\<open>arming\<close> and \<^verbatim>\<open>disarming\<close> calls, from any state of the
  object, no \<^verbatim>\<open>disarming\<close> call returns true.
\<close>

theorem sim_controller_never_disarms:
  "fst (Controller_disarming c) = False \<and> snd (Controller_disarming c) = c \<and>
   (Disarming, True) \<notin> set (Controller_calls calls c)"
proof -
  have "(Disarming, True) \<notin> set (Controller_calls calls c)"
    by (induction calls c rule: Controller_calls.induct) (simp_all add: Controller_disarming_def)
  then show ?thesis by (simp add: Controller_disarming_def)
qed

section \<open>Arming and disarming\<close>

lemma stick_actions_stab: "stab (stick_actions t h) = stab h"
  by (simp add: stick_actions_def Let_def)

lemma stick_actions_armed:
  "armed (stick_actions t h) =
     (if armed h then sticks t \<noteq> Sticks LO LO CE CE
      else sticks t = Sticks LO HI CE CE \<and> calibratingG h = 0 \<and> accCalibrated h \<and>
           auxState t = 0)"
  by (auto simp: stick_actions_def Let_def)

lemma rc_block_armed:
  "armed (rc_block t h) =
     (if changed t
      then (if armed h then sticks t \<noteq> Sticks LO LO CE CE
            else sticks t = Sticks LO HI CE CE \<and> calibratingG h = 0 \<and> accCalibrated h \<and>
                 auxState t = 0)
      else armed h)"
  by (simp add: rc_block_def Let_def stick_actions_armed)

lemma rc_block_stab:
  "stab (rc_block t h) =
     (if throttleIsDown t then Stabilize_resetIntegral (stab h) else stab h)"
  by (simp add: rc_block_def Let_def stick_actions_stab)

lemma extras_block_same: "armed (extras_block t h) = armed h \<and> stab (extras_block t h) = stab h"
  by (simp add: extras_block_def Let_def)

lemma imu_bookkeeping_same:
  "armed (imu_bookkeeping cfg t h) = armed h \<and> stab (imu_bookkeeping cfg t h) = stab h"
  by (simp add: imu_bookkeeping_def Let_def)

lemma imu_block_SomeE:
  assumes "imu_block cfg t h = Some h'"
  obtains st where "Stabilize_update cfg (stab h)
      \<lparr>rcCommand = rc_command t, gyroADC = imu_gyroADC t, angle = imu_angle t\<rparr> = Some st"
    and "h' = (imu_bookkeeping cfg t h)\<lparr>stab := st\<rparr>"
  using assms unfolding imu_block_def Let_def
  by (cases "Stabilize_update cfg (stab (imu_bookkeeping cfg t h))
      \<lparr>rcCommand = rc_command t, gyroADC = imu_gyroADC t, angle = imu_angle t\<rparr>")
     (simp_all add: imu_bookkeeping_same)

lemma imu_block_armed: "imu_block cfg t h = Some h' \<Longrightarrow> armed h' = armed h"
  by (erule imu_block_SomeE) (simp add: imu_bookkeeping_same)

lemma imu_block_total:
  assumes "rate_gains_nonzero (stab h)"
  shows "\<exists>h'. imu_block cfg t h = Some h'"
proof -
  obtain st where "Stabilize_update cfg (stab h)
      \<lparr>rcCommand = rc_command t, gyroADC = imu_gyroADC t, angle = imu_angle t\<rparr> = Some st"
    using update_total [OF assms] by blast
  then show ?thesis by (simp add: imu_block_def Let_def imu_bookkeeping_same)
qed

lemma Hackflight_update_total:
  assumes "rate_gains_nonzero (stab h)"
  shows "\<exists>h'. Hackflight_update cfg t h = Some h'"
proof -
  let ?h1 = "if rcTask_due t \<or> rcSerialReady t then rc_block t h else extras_block t h"
  have "rate_gains_nonzero (stab ?h1)"
    using assms by (simp add: rc_block_stab extras_block_same resetIntegral_gains)
  then obtain h' where "imu_block cfg t ?h1 = Some h'" using imu_block_total by blast
  then show ?thesis by (simp add: Hackflight_update_def Let_def)
qed

lemma Hackflight_update_armed:
  assumes "Hackflight_update cfg t h = Some h'"
  shows "armed h' =
     (if (rcTask_due t \<or> rcSerialReady t) \<and> changed t
      then (if armed h then sticks t \<noteq> Sticks LO LO CE CE
            else sticks t = Sticks LO HI CE CE \<and> calibratingG h = 0 \<and> accCalibrated h \<and>
                 auxState t = 0)
      else armed h)"
proof -
  let ?h1 = "if rcTask_due t \<or> rcSerialReady t then rc_block t h else extras_block t h"
  from assms have "armed h' = armed ?h1"
    by (auto simp: Hackflight_update_def Let_def dest: imu_block_armed split: if_splits)
  then show ?thesis by (simp add: rc_block_armed extras_block_same)
qed

text \<open>
  Claim C2, as amended. On a receiver tick that carries the arm gesture, \<^verbatim>\<open>armed\<close> goes from
  false to true if and only if the receiver reports a change of the sticks
  (\<^verbatim>\<open>rc.changed()\<close>), the gyro calibration countdown is zero, the accelerometer is
  calibrated, the auxiliary switch is neutral and the craft is not armed yet; when one of
  these fails \<^verbatim>\<open>armed\<close> is left as it was. The pass of \<^verbatim>\<open>update\<close> returns, the rate gains not
  being zero.
\<close>

theorem arming_needs_all_guards:
  assumes "rate_gains_nonzero (stab h)"
    and "rcTask_due t \<or> rcSerialReady t" and "sticks t = Sticks LO HI CE CE"
  shows "\<exists>h'. Hackflight_update cfg t h = Some h' \<and>
     ((\<not> armed h \<and> armed h') =
      (changed t \<and> calibratingG h = 0 \<and> accCalibrated h \<and> auxState t = 0 \<and> \<not> armed h)) \<and>
     (armed h' =
      (armed h \<or> (changed t \<and> calibratingG h = 0 \<and> accCalibrated h \<and> auxState t = 0)))"
proof -
  from assms(1) obtain h' where h': "Hackflight_update cfg t h = Some h'"
    using Hackflight_update_total by blast
  from Hackflight_update_armed [OF h'] assms(2,3)
  have "armed h' =
      (armed h \<or> (changed t \<and> calibratingG h = 0 \<and> accCalibrated h \<and> auxState t = 0))"
    by auto
  with h' show ?thesis by blast
qed

text \<open>
  Claim C3, as amended. While \<^verbatim>\<open>armed\<close> is true, a pass of \<^verbatim>\<open>update\<close> clears it exactly when
  the pass is a receiver tick on which the receiver reports a change of the sticks and the
  sticks show the disarm gesture; the calibration counters, the timers and the sensor branch
  play no part.
\<close>

theorem disarm_only_by_gesture:
  assumes "rate_gains_nonzero (stab h)" and "armed h"
  shows "\<exists>h'. Hackflight_update cfg t h = Some h' \<and>
     (armed h' = (\<not> ((rcTask_due t \<or> rcSerialReady t) \<and> changed t \<and>
                      sticks t = Sticks LO LO CE CE)))"
proof -
  from assms(1) obtain h' where h': "Hackflight_update cfg t h = Some h'"
    using Hackflight_update_total by blast
  from Hackflight_update_armed [OF h'] assms(2)
  have "armed h' = (\<not> ((rcTask_due t \<or> rcSerialReady t) \<and> changed t \<and>
                      sticks t = Sticks LO LO CE CE))" by auto
  with h' show ?thesis by blast
qed

lemma sample_hackflight_gains: "rate_gains_nonzero (stab sample_hackflight)"
  by (simp add: sample_hackflight_def init_sample_gains)

text \<open>
  Claim C2 as stated fails: the arm gesture with all four guards true does not arm on a tick
  on which \<^verbatim>\<open>rc.changed()\<close> is false.
\<close>

theorem arm_gesture_without_change_counterexample:
  "(rcTask_due held_arm_tick \<or> rcSerialReady held_arm_tick) \<and>
   sticks held_arm_tick = Sticks LO HI CE CE \<and>
   calibratingG sample_hackflight = 0 \<and> accCalibrated sample_hackflight \<and>
   auxState held_arm_tick = 0 \<and> \<not> armed sample_hackflight \<and>
   map_option armed (Hackflight_update sample_config held_arm_tick sample_hackflight) = Some False"
  by (simp add: held_arm_tick_def sample_tick_def sample_hackflight_def Hackflight_update_def
      rc_block_armed)

theorem arming_needs_all_guards_witness:
  "rate_gains_nonzero (stab sample_hackflight) \<and>
   (rcTask_due sample_tick \<or> rcSerialReady sample_tick) \<and>
   sticks sample_tick = Sticks LO HI CE CE \<and> changed sample_tick \<and>
   calibratingG sample_hackflight = 0 \<and> accCalibrated sample_hackflight \<and>
   auxState sample_tick = 0 \<and> \<not> armed sample_hackflight \<and>
   (\<exists>h'. Hackflight_update sample_config sample_tick sample_hackflight = Some h' \<and> armed h')"
  using arming_needs_all_guards [where h = sample_hackflight and t = sample_tick
      and cfg = sample_config] sample_hackflight_gains
  by (simp add: sample_tick_def sample_hackflight_def)

text \<open>
  Claim C3 as stated fails: the disarm gesture received while armed does not disarm on a tick
  on which \<^verbatim>\<open>rc.changed()\<close> is false.
\<close>

theorem disarm_gesture_without_change_counterexample:
  "(rcTask_due held_disarm_tick \<or> rcSerialReady held_disarm_tick) \<and>
   sticks held_disarm_tick = Sticks LO LO CE CE \<and> armed armed_hackflight \<and>
   map_option armed (Hackflight_update sample_config held_disarm_tick armed_hackflight) = Some True"
  by (simp add: held_disarm_tick_def sample_tick_def armed_hackflight_def sample_hackflight_def
      Hackflight_update_def rc_block_armed)

theorem disarm_only_by_gesture_witness:
  "rate_gains_nonzero (stab armed_hackflight) \<and> armed armed_hackflight \<and>
   (rcTask_due disarm_tick \<or> rcSerialReady disarm_tick) \<and> changed disarm_tick \<and>
   sticks disarm_tick = Sticks LO LO CE CE \<and>
   (\<exists>h'. Hackflight_update sample_config disarm_tick armed_hackflight = Some h' \<and> \<not> armed h')"
  using disarm_only_by_gesture [where h = armed_hackflight and t = disarm_tick
      and cfg = sample_config] sample_hackflight_gains
  by (simp add: armed_hackflight_def disarm_tick_def sample_tick_def)

section \<open>The integral reset while the throttle is down\<close>

lemma resetIntegral_zero:
  "(axis < 3 \<longrightarrow> errorGyroI (Stabilize_resetIntegral s) axis = 0) \<and>
   (axis < 2 \<longrightarrow> errorAngleI (Stabilize_resetIntegral s) axis = 0)"
  by (auto dest!: lt3_cases lt2_cases
      simp: Stabilize_resetIntegral_def AXIS_ROLL_def AXIS_PITCH_def AXIS_YAW_def)

text \<open>
  Claim C5, as amended. On every receiver tick with the throttle down \<^verbatim>\<open>resetIntegral\<close> runs,
  whether or not the sticks changed, and both integral accumulators are zero on every axis
  when the receiver branch ends, whatever they held before; that is the state in which
  \<^verbatim>\<open>update\<close> returns when the sensor task is not due in the same pass.
\<close>

theorem ground_idle_resets_integral:
  assumes "rcTask_due t \<or> rcSerialReady t" and "throttleIsDown t" and "axis < 3"
  shows "errorGyroI (stab (rc_block t h)) axis = 0 \<and>
         (axis < 2 \<longrightarrow> errorAngleI (stab (rc_block t h)) axis = 0) \<and>
         (\<not> imuTask_due t \<longrightarrow> Hackflight_update cfg t h = Some (rc_block t h))"
  using assms resetIntegral_zero [of axis "stab h"]
  by (simp add: rc_block_stab Hackflight_update_def)

theorem ground_idle_resets_integral_witness:
  "(rcTask_due held_arm_tick \<or> rcSerialReady held_arm_tick) \<and> throttleIsDown held_arm_tick \<and>
   (0::nat) < 3 \<and> (0::nat) < 2 \<and> \<not> imuTask_due held_arm_tick \<and>
   errorGyroI (stab (rc_block held_arm_tick sample_hackflight)) 0 = 0 \<and>
   errorAngleI (stab (rc_block held_arm_tick sample_hackflight)) 0 = 0 \<and>
   Hackflight_update sample_config held_arm_tick sample_hackflight =
     Some (rc_block held_arm_tick sample_hackflight)"
  using ground_idle_resets_integral [where t = held_arm_tick and axis = 0
      and h = sample_hackflight and cfg = sample_config]
  by (simp add: held_arm_tick_def sample_tick_def)

lemma update_errorGyroI_first:
  assumes "Stabilize_update cfg s inp = Some s'"
  shows "errorGyroI s' 0 = next_errorGyroI s inp 0"
proof -
  from assms obtain s2 where loop: "axis_loop cfg inp [0, 1, 2] s = Some s2"
    and s': "s' = yaw_jump inp s2" by (rule update_SomeE)
  from loop obtain s1 where s1: "axis_step cfg inp 0 s = Some s1"
    and rest: "axis_loop cfg inp [1, 2] s1 = Some s2"
    by (cases "axis_step cfg inp 0 s") simp_all
  from rest have "errorGyroI s2 0 = errorGyroI s1 0"
    by (rule axis_loop_errorGyroI_other) simp
  with axis_step_errorGyroI [OF s1] s' show ?thesis by (simp add: yaw_jump_def)
qed

lemma sample_next_errorGyroI:
  "next_errorGyroI (Stabilize_resetIntegral (Stabilize_init sample_config blank_stabilize))
     \<lparr>rcCommand = \<lambda>_. 0, gyroADC = (\<lambda>_. 0)(0 := 5), angle = \<lambda>_. 0\<rparr> 0 = - 5"
  by (simp add: next_errorGyroI_def gyro_error_def constrain_def c_abs_def c_div_def promote_def
      Stabilize_resetIntegral_def Stabilize_init_def Let_def AXIS_ROLL_def AXIS_PITCH_def
      AXIS_YAW_def word_sless_alt)

text \<open>
  Claim C5 as stated fails: when the sensor task is due in the same pass, \<^verbatim>\<open>stab.update\<close>
  runs after the reset, and with a roll rate of 5 the roll integral is \<open>-5\<close> when \<^verbatim>\<open>update\<close>
  returns.
\<close>

theorem ground_idle_then_imu_counterexample:
  "(rcTask_due sample_tick \<or> rcSerialReady sample_tick) \<and> throttleIsDown sample_tick \<and>
   map_option (\<lambda>h'. errorGyroI (stab h') 0)
     (Hackflight_update sample_config sample_tick sample_hackflight) = Some (- 5)"
proof -
  obtain h' where h': "Hackflight_update sample_config sample_tick sample_hackflight = Some h'"
    using Hackflight_update_total [OF sample_hackflight_gains] by blast
  then have "imu_block sample_config sample_tick (rc_block sample_tick sample_hackflight) = Some h'"
    by (simp add: Hackflight_update_def sample_tick_def)
  then obtain st where st: "Stabilize_update sample_config
        (stab (rc_block sample_tick sample_hackflight))
        \<lparr>rcCommand = rc_command sample_tick, gyroADC = imu_gyroADC sample_tick,
         angle = imu_angle sample_tick\<rparr> = Some st"
    and eq: "h' = (imu_bookkeeping sample_config sample_tick
                    (rc_block sample_tick sample_hackflight))\<lparr>stab := st\<rparr>"
    by (rule imu_block_SomeE)
  from update_errorGyroI_first [OF st]
  have "errorGyroI st 0 = - 5"
    using sample_next_errorGyroI
    by (simp add: rc_block_stab sample_tick_def sample_hackflight_def)
  with eq h' show ?thesis by (simp add: sample_tick_def)
qed

section \<open>The blend of angle levelling and rate control\<close>


lemma cyclic_prop_eq: "cyclic_prop d = 2 * max \<bar>roll d\<bar> \<bar>pitch d\<bar>"
  by (simp add: cyclic_prop_def Filter_max_def max_def)

lemma cyclic_PTerm_0: "cyclic_PTerm h c 0 e a = (c - e a) * levelP h"
  by (simp add: cyclic_PTerm_def Filter_complementary_def PTermEuler_def)

lemma cyclic_PTerm_1: "cyclic_PTerm h c 1 e a = c"
  by (simp add: cyclic_PTerm_def Filter_complementary_def)

lemma computeITermGyro_fields:
  "levelP (snd (computeITermGyro rateP rateI command gyro axis s)) = levelP s \<and>
   gyroCyclicP (snd (computeITermGyro rateP rateI command gyro axis s)) = gyroCyclicP s \<and>
   gyroCyclicD (snd (computeITermGyro rateP rateI command gyro axis s)) = gyroCyclicD s \<and>
   hf_lastGyro (snd (computeITermGyro rateP rateI command gyro axis s)) = hf_lastGyro s \<and>
   gyroDelta1 (snd (computeITermGyro rateP rateI command gyro axis s)) = gyroDelta1 s \<and>
   gyroDelta2 (snd (computeITermGyro rateP rateI command gyro axis s)) = gyroDelta2 s"
  by (simp add: computeITermGyro_def Let_def)

lemma computeCyclicPid_value:
  "fst (computeCyclicPid c p e g a h) =
     computePid (gyroCyclicP h) (cyclic_PTerm h c p e a)
       (fst (computeITermGyro (gyroCyclicP h) (gyroCyclicI h) c g a h) * p)
       ((gyroDelta1 h a + gyroDelta2 h a + (g a - hf_lastGyro h a)) * gyroCyclicD h) g a"
  by (simp add: computeCyclicPid_def Let_def case_prod_beta computeITermGyro_fields
      cyclic_PTerm_def PTermEuler_def)

lemma c_div_mult_500:
  assumes "- 4294967 \<le> sint (x::int32)" and "sint x \<le> 4294967"
  shows "c_div (x * 500) 500 = x"
proof -
  have s500: "sint (500 :: int32) = 500" by simp
  have "sint (x * 500) = sint x * sint (500::int32)"
    by (rule sint_mult32) (use assms in \<open>simp_all add: s500\<close>)
  then have "sint (x * 500) = sint x * 500" by (simp add: s500)
  moreover have "(sint x * 500) sdiv 500 = sint x"
    by (simp add: signed_divide_int_def sgn_mult abs_mult mult_sgn_abs)
  ultimately show ?thesis by (simp add: c_div_def s500)
qed

lemma blend_PTerm_0:
  assumes "axis < 2" and "blend_prop inp = 0" and "\<bar>sint (PTermACC cfg inp axis)\<bar> \<le> 4294967"
  shows "blend_PTerm cfg inp axis = PTermACC cfg inp axis"
  using assms c_div_mult_500 [of "PTermACC cfg inp axis"]
  by (simp add: blend_PTerm_def abs_le_iff)

lemma blend_PTerm_500:
  assumes "axis < 2" and "blend_prop inp = 500"
  shows "blend_PTerm cfg inp axis = PTermGYRO inp axis"
  using assms c_div_mult_500 [of "PTermGYRO inp axis"] sint_promote_range [of "rcCommand inp axis"]
  by (simp add: blend_PTerm_def PTermGYRO_def)

text \<open>
  Claim C7 as stated fails: the proportion is not clamped to \<open>[0, 1]\<close>. A roll demand of 1
  gives the proportion 2.
\<close>

theorem blend_not_clamped_counterexample:
  "cyclic_prop \<lparr>roll = 1, pitch = 0, yaw = 0\<rparr> = 2 \<and>
   \<not> cyclic_prop \<lparr>roll = 1, pitch = 0, yaw = 0\<rparr> \<le> 1"
  by (simp add: cyclic_prop_def Filter_max_def)

lemma updateDemands_roll:
  "roll (fst (Stabilizer_updateDemands e g d h)) =
     fst (computeCyclicPid (roll d) (cyclic_prop d) e g AXIS_ROLL h)"
  by (simp add: Stabilizer_updateDemands_def Let_def case_prod_beta)

lemma updateDemands_pitch:
  "pitch (fst (Stabilizer_updateDemands e g d h)) =
     fst (computeCyclicPid (pitch d) (cyclic_prop d) e g AXIS_PITCH
            (snd (computeCyclicPid (roll d) (cyclic_prop d) e g AXIS_ROLL h)))"
  by (simp add: Stabilizer_updateDemands_def Let_def case_prod_beta)

text \<open>
  Claim C7, as amended. For roll and pitch \<^verbatim>\<open>updateDemands\<close> blends with the proportion
  \<open>max(|demand.roll|, |demand.pitch|) / 0.5\<close>, which is not clamped. \<^verbatim>\<open>computeCyclicPid\<close>
  hands the blended proportional term \<open>cyclic_PTerm\<close> to \<^verbatim>\<open>computePid\<close>; at proportion 0 it is
  the angle-levelling term \<open>(demand - angle) * levelP\<close>, at proportion 1 it is the rate term,
  the demand itself. In \<^verbatim>\<open>Stabilize::update\<close> the proportion is
  \<open>max(|rcCommand[pitch]|, |rcCommand[roll]|)\<close> on a scale where 500 stands for 1, not
  clamped either; at 0 the blended term is \<^verbatim>\<open>PTermACC\<close> (when \<open>PTermACC * 500\<close> fits 32 bits),
  at 500 it is \<^verbatim>\<open>PTermGYRO\<close>.
\<close>

theorem blend_endpoints:
  "cyclic_prop d = 2 * max \<bar>roll d\<bar> \<bar>pitch d\<bar> \<and>
   roll (fst (Stabilizer_updateDemands e g d h)) =
     fst (computeCyclicPid (roll d) (cyclic_prop d) e g AXIS_ROLL h) \<and>
   pitch (fst (Stabilizer_updateDemands e g d h)) =
     fst (computeCyclicPid (pitch d) (cyclic_prop d) e g AXIS_PITCH
            (snd (computeCyclicPid (roll d) (cyclic_prop d) e g AXIS_ROLL h))) \<and>
   fst (computeCyclicPid c p e g a h) =
     computePid (gyroCyclicP h) (cyclic_PTerm h c p e a)
       (fst (computeITermGyro (gyroCyclicP h) (gyroCyclicI h) c g a h) * p)
       ((gyroDelta1 h a + gyroDelta2 h a + (g a - hf_lastGyro h a)) * gyroCyclicD h) g a \<and>
   cyclic_PTerm h c 0 e a = (c - e a) * levelP h \<and>
   cyclic_PTerm h c 1 e a = c \<and>
   (axis < 2 \<and> blend_prop inp = 0 \<and> \<bar>sint (PTermACC cfg inp axis)\<bar> \<le> 4294967 \<longrightarrow>
      blend_PTerm cfg inp axis = PTermACC cfg inp axis) \<and>
   (axis < 2 \<and> blend_prop inp = 500 \<longrightarrow> blend_PTerm cfg inp axis = PTermGYRO inp axis)"
  using cyclic_prop_eq [of d] updateDemands_roll [of e g d h] updateDemands_pitch [of e g d h]
    computeCyclicPid_value [of c p e g a h] cyclic_PTerm_0 [of h c e a] cyclic_PTerm_1 [of h c e a]
    blend_PTerm_0 [of axis inp cfg] blend_PTerm_500 [of axis inp cfg]
  by blast

lemma centred_PTermACC: "PTermACC sample_config centred_input 0 = - 18"
  by (simp add: PTermACC_def errorAngle_def Let_def c_div_def promote_def sample_config_def
      centred_input_def word_sless_alt signed_divide_int_def)

theorem blend_endpoints_witness:
  "(0::nat) < 2 \<and> blend_prop centred_input = 0 \<and>
   \<bar>sint (PTermACC sample_config centred_input 0)\<bar> \<le> 4294967 \<and>
   blend_PTerm sample_config centred_input 0 = PTermACC sample_config centred_input 0 \<and>
   blend_prop full_roll_input = 500 \<and>
   blend_PTerm sample_config full_roll_input 0 = PTermGYRO full_roll_input 0"
proof -
  have a: "blend_prop centred_input = 0"
    by (simp add: blend_prop_def c_max_def c_abs_def promote_def centred_input_def)
  have b: "blend_prop full_roll_input = 500"
    by (simp add: blend_prop_def c_max_def c_abs_def promote_def full_roll_input_def
        DEMAND_ROLL_def DEMAND_PITCH_def word_sless_alt)
  have c: "\<bar>sint (PTermACC sample_config centred_input 0)\<bar> \<le> 4294967"
    by (simp add: centred_PTermACC)
  from a c blend_endpoints [where axis = 0 and inp = centred_input and cfg = sample_config]
  have "blend_PTerm sample_config centred_input 0 = PTermACC sample_config centred_input 0"
    by simp
  moreover from b blend_endpoints [where axis = 0 and inp = full_roll_input and cfg = sample_config]
  have "blend_PTerm sample_config full_roll_input 0 = PTermGYRO full_roll_input 0"
    by simp
  ultimately show ?thesis using a b c by simp
qed

end
